theory Spec2Isabelle
  imports Complex_Main "HOL-Library.Char_ord" "HOL-Library.List_Lexorder" "HOL-Library.AList"
begin

section \<open>Python values\<close>

text \<open>
  The tool \<^verbatim>\<open>ragtag/tools/user.py\<close> receives a JSON-like dictionary and answers with
  a result envelope. Its values are modelled by \<open>pyval\<close>: a dictionary is an association
  list in insertion order and is read through \<open>map_of\<close>; a string is a \<open>char list\<close>
  (the UTF-8 bytes of the Python string: the code only compares strings, joins them, sorts
  them and cuts them at the ASCII character \<^verbatim>\<open>-\<close>, which bytes and code points do
  alike); a float is the rational it denotes: the handler looks at the type and the sign of
  a float only, and one helper adds 5 to it (infinities and NaN are left out).
\<close>

datatype pyval =
    PNone
  | PBool bool
  | PInt int
  | PFloat rat
  | PStr string
  | PList "pyval list"
  | PDict "(string \<times> pyval) list"

type_synonym pydict = "(string \<times> pyval) list"

text \<open>Exceptions are values; \<open>str_exn\<close> is Python's \<^verbatim>\<open>str(e)\<close>.\<close>

datatype exn =
    AttributeError string
  | TypeError string
  | ValueError string
  | OverflowError string
  | Queue_Empty
  | Exception string

fun str_exn :: "exn \<Rightarrow> string" where
  "str_exn (AttributeError m) = m"
| "str_exn (TypeError m) = m"
| "str_exn (ValueError m) = m"
| "str_exn (OverflowError m) = m"
| "str_exn Queue_Empty = ''''"
| "str_exn (Exception m) = m"

definition sq :: string where
  "sq = [CHR 0x27]"

definition quoted :: "string \<Rightarrow> string" where
  "quoted s = sq @ s @ sq"

text \<open>\<^verbatim>\<open>type(v).__name__\<close>, \<^verbatim>\<open>bool(v)\<close> and the \<^verbatim>\<open>isinstance\<close> tests. In Python
  \<^verbatim>\<open>bool\<close> is a subclass of \<^verbatim>\<open>int\<close>, so \<^verbatim>\<open>isinstance(True, int)\<close> holds.\<close>

fun type_name :: "pyval \<Rightarrow> string" where
  "type_name PNone = ''NoneType''"
| "type_name (PBool b) = ''bool''"
| "type_name (PInt i) = ''int''"
| "type_name (PFloat r) = ''float''"
| "type_name (PStr s) = ''str''"
| "type_name (PList xs) = ''list''"
| "type_name (PDict d) = ''dict''"

fun truthy :: "pyval \<Rightarrow> bool" where
  "truthy PNone = False"
| "truthy (PBool b) = b"
| "truthy (PInt i) = (i \<noteq> 0)"
| "truthy (PFloat r) = (r \<noteq> 0)"
| "truthy (PStr s) = (s \<noteq> [])"
| "truthy (PList xs) = (xs \<noteq> [])"
| "truthy (PDict d) = (d \<noteq> [])"

fun isinstance_str :: "pyval \<Rightarrow> bool" where
  "isinstance_str (PStr s) = True"
| "isinstance_str v = False"

fun isinstance_dict :: "pyval \<Rightarrow> bool" where
  "isinstance_dict (PDict d) = True"
| "isinstance_dict v = False"

fun isinstance_int :: "pyval \<Rightarrow> bool" where
  "isinstance_int (PInt i) = True"
| "isinstance_int (PBool b) = True"
| "isinstance_int v = False"

fun isinstance_bool :: "pyval \<Rightarrow> bool" where
  "isinstance_bool (PBool b) = True"
| "isinstance_bool v = False"

fun isinstance_list :: "pyval \<Rightarrow> bool" where
  "isinstance_list (PList xs) = True"
| "isinstance_list v = False"

text \<open>The number a value stands for in a comparison or a sum (\<^verbatim>\<open>True\<close> is 1);
  \<open>None\<close> where Python raises \<^verbatim>\<open>TypeError\<close>.\<close>

fun num_of :: "pyval \<Rightarrow> rat option" where
  "num_of (PInt i) = Some (of_int i)"
| "num_of (PBool b) = Some (if b then 1 else 0)"
| "num_of (PFloat r) = Some r"
| "num_of v = None"

text \<open>\<^verbatim>\<open>d.get(k)\<close>, \<^verbatim>\<open>d.get(k, default)\<close>, \<^verbatim>\<open>k in d\<close> and \<^verbatim>\<open>d[k] = v\<close>
  (an existing key keeps its place, a new one goes last).\<close>

definition py_get :: "pydict \<Rightarrow> string \<Rightarrow> pyval \<Rightarrow> pyval" where
  "py_get d k dflt = (case map_of d k of Some v \<Rightarrow> v | None \<Rightarrow> dflt)"

definition has_key :: "pydict \<Rightarrow> string \<Rightarrow> bool" where
  "has_key d k = (k \<in> fst ` set d)"

definition dict_set :: "pydict \<Rightarrow> string \<Rightarrow> pyval \<Rightarrow> pydict" where
  "dict_set d k v = AList.update k v d"

text \<open>Decimal digits of an integer, \<^verbatim>\<open>', '.join(xs)\<close>, and \<^verbatim>\<open>str(xs)\<close> for a list of
  plain strings (the enum tables hold no quote and no backslash).\<close>

fun str_nat :: "nat \<Rightarrow> string" where
  "str_nat n = (if n < 10 then [char_of (48 + n)]
                else str_nat (n div 10) @ [char_of (48 + n mod 10)])"

declare str_nat.simps [simp del]

definition str_int :: "int \<Rightarrow> string" where
  "str_int i = (if i < 0 then ''-'' @ str_nat (nat (- i)) else str_nat (nat i))"

fun join :: "string \<Rightarrow> string list \<Rightarrow> string" where
  "join sep [] = []"
| "join sep [x] = x"
| "join sep (x # y # ys) = x @ sep @ join sep (y # ys)"

definition str_list :: "string list \<Rightarrow> string" where
  "str_list xs = ''['' @ join '', '' (map quoted xs) @ '']''"

section \<open>The surroundings of the tool\<close>

text \<open>
  What the module reads but does not define is a parameter, gathered in \<open>env\<close>:
  the unlock token (\<^verbatim>\<open>get_tool_token(__file__)\<close>, computed once at import), the prose
  of the README before and after the token, \<^verbatim>\<open>json.dumps(\<cdot>, indent=2)\<close>, Python's
  \<^verbatim>\<open>str\<close> of a float, list or dictionary, \<^verbatim>\<open>uuid.uuid4()\<close> and \<^verbatim>\<open>time.time()\<close>
  as read by this call, the engine object of \<^verbatim>\<open>__main__\<close>, the HTML page built for
  \<^verbatim>\<open>collect_api_key\<close> (it needs \<^verbatim>\<open>ragtag.shared_config\<close>), and the presentation
  thread: \<open>consumer env r = Some (d, v)\<close> says that it puts \<open>v\<close> on the reply queue of
  request \<open>r\<close> \<open>d\<close> seconds after the read of that queue starts (at once, or before, when
  \<open>d \<le> 0\<close>), \<open>None\<close> that it never answers.
  Three parameters are the platform's: \<^verbatim>\<open>threading.TIMEOUT_MAX\<close>, the longest wait a lock
  accepts (9223372036 seconds on CPython for Linux, 4294967 for Windows), the text of the
  \<^verbatim>\<open>OverflowError\<close> that a longer wait raises, and the sum of two floats as the machine
  rounds it.
  Logging (\<^verbatim>\<open>MCPLogger.log\<close>) is left out, except where formatting the logged text can
  raise.
\<close>

datatype engine_status =
    No_Main_Module
  | No_Engine
  | No_Emit_Method
  | Emit_Returns
  | Emit_Raises exn

record UIRequest =
  req_operation :: string
  req_data :: pyval

record env =
  TOOL_UNLOCK_TOKEN :: string
  README_HEAD :: string
  README_TAIL :: string
  json_dumps :: "pyval \<Rightarrow> string"
  py_repr :: "pyval \<Rightarrow> string"
  uuid4 :: string
  time_time :: pyval
  engine :: engine_status
  generate_api_key_collection_html :: "pyval \<Rightarrow> pyval \<Rightarrow> exn + string"
  consumer :: "UIRequest \<Rightarrow> (rat \<times> pyval) option"
  TIMEOUT_MAX :: rat
  overflow_text :: "pyval \<Rightarrow> string"
  float_add :: "rat \<Rightarrow> rat \<Rightarrow> rat"

text \<open>
  The state a call can change: the request queue registered under
  \<^verbatim>\<open>sys.modules['friday_ui_queue']\<close> (\<open>None\<close> when the presentation thread never
  registered one), the bounds of the reads \<^verbatim>\<open>reply_queue.get(timeout=b)\<close> made so far
  (those that the queue did not refuse), and the toasts handed to
  \<^verbatim>\<open>engine._emit_message\<close>.
  Each request owns a fresh reply queue; what the presentation thread writes there is
  given by \<open>consumer\<close>, so the record \<open>UIRequest\<close> keeps the other two fields.
\<close>

record world =
  friday_ui_queue :: "UIRequest list option"
  waited :: "rat list"
  emitted :: "(string \<times> pyval) list"

text \<open>The result envelope \<^verbatim>\<open>{"content": [{"type": "text", "text": t}], "isError": b}\<close>.\<close>

record envelope =
  content_text :: string
  isError :: bool

definition py_str :: "env \<Rightarrow> pyval \<Rightarrow> string" where
  "py_str env v =
     (case v of
        PStr s \<Rightarrow> s
      | PNone \<Rightarrow> ''None''
      | PBool b \<Rightarrow> (if b then ''True'' else ''False'')
      | PInt i \<Rightarrow> str_int i
      | _ \<Rightarrow> py_repr env v)"

text \<open>
  \<^verbatim>\<open>request_queue.put(r)\<close> on an unbounded queue, and
  \<^verbatim>\<open>reply_queue.get(timeout=b)\<close>, which runs
  \<^verbatim>\<open>if timeout < 0: raise ValueError\<close>, then \<^verbatim>\<open>endtime = time() + timeout\<close>, then,
  as long as the queue is empty, \<^verbatim>\<open>not_empty.wait(remaining)\<close>.
  So a bound that is no number raises \<^verbatim>\<open>TypeError\<close> and a negative one
  \<^verbatim>\<open>ValueError\<close>; an integer that has no float (it rounds to \<^verbatim>\<open>2**1024\<close>) raises
  \<^verbatim>\<open>OverflowError\<close> in the sum; a reply that is already there is returned; otherwise a
  bound above \<^verbatim>\<open>threading.TIMEOUT_MAX\<close> raises \<^verbatim>\<open>OverflowError\<close> without waiting,
  and any other bound gives the reply when it arrives within the bound and
  \<^verbatim>\<open>queue.Empty\<close> when it does not. (The source never gives \<^verbatim>\<open>None\<close> as a bound.)
\<close>

definition queue_put :: "world \<Rightarrow> UIRequest list \<Rightarrow> UIRequest \<Rightarrow> world" where
  "queue_put st q r = st\<lparr>friday_ui_queue := Some (q @ [r])\<rparr>"

definition FLOAT_LIMIT :: int where
  "FLOAT_LIMIT = 2 ^ 1024 - 2 ^ 970"

definition no_float :: "pyval \<Rightarrow> bool" where
  "no_float v = (case v of PInt i \<Rightarrow> FLOAT_LIMIT \<le> i | _ \<Rightarrow> False)"

definition reply_ready :: "env \<Rightarrow> UIRequest \<Rightarrow> bool" where
  "reply_ready env r = (case consumer env r of None \<Rightarrow> False | Some (d, v) \<Rightarrow> d \<le> 0)"

definition reply_queue_get :: "env \<Rightarrow> world \<Rightarrow> UIRequest \<Rightarrow> pyval \<Rightarrow> (exn + pyval) \<times> world" where
  "reply_queue_get env st r bound =
     (case num_of bound of
        None \<Rightarrow>
          (Inl (TypeError (sq @ ''<'' @ sq @ '' not supported between instances of ''
                           @ quoted (type_name bound) @ '' and '' @ quoted ''int'')), st)
      | Some b \<Rightarrow>
          if b < 0 then
            (Inl (ValueError (quoted ''timeout'' @ '' must be a non-negative number'')), st)
          else if no_float bound then
            (Inl (OverflowError ''int too large to convert to float''), st)
          else if \<not> reply_ready env r \<and> TIMEOUT_MAX env < b then
            (Inl (OverflowError (overflow_text env bound)), st)
          else
            (case consumer env r of
               None \<Rightarrow> Inl Queue_Empty
             | Some (d, v) \<Rightarrow> if d \<le> b then Inr v else Inl Queue_Empty,
             st\<lparr>waited := waited st @ [b]\<rparr>))"

section \<open>The parameter schema and the documentation\<close>

text \<open>
  \<^verbatim>\<open>TOOLS[0]["real_parameters"]\<close>. A property has a type, possibly an enum and a
  default; its description is looked up in \<open>descriptions\<close>. The dictionary literal of the
  source names \<^verbatim>\<open>message\<close> twice: Python keeps the place of the first entry and the
  value of the second, which has no default.
\<close>

record property =
  pname :: string
  ptype :: string
  penum :: "string list option"
  pdefault :: "pyval option"

definition properties :: "property list" where
  "properties = [
    \<lparr>pname = ''operation'', ptype = ''string'', penum = Some [''readme'', ''show_popup'', ''show_dialog'', ''test_queue'', ''collect_api_key'', ''show_toast'', ''send_message'', ''check_messages'', ''show_dashboard'', ''hide_dashboard'', ''get_message_history'', ''clear_messages''], pdefault = None\<rparr>,
    \<lparr>pname = ''html'', ptype = ''string'', penum = None, pdefault = None\<rparr>,
    \<lparr>pname = ''url'', ptype = ''string'', penum = None, pdefault = None\<rparr>,
    \<lparr>pname = ''title'', ptype = ''string'', penum = None, pdefault = Some (PStr ''User Interface'')\<rparr>,
    \<lparr>pname = ''width'', ptype = ''integer'', penum = None, pdefault = Some (PInt 600)\<rparr>,
    \<lparr>pname = ''height'', ptype = ''integer'', penum = None, pdefault = Some (PInt 400)\<rparr>,
    \<lparr>pname = ''modal'', ptype = ''boolean'', penum = None, pdefault = Some (PBool True)\<rparr>,
    \<lparr>pname = ''timeout'', ptype = ''integer'', penum = None, pdefault = Some (PInt 0)\<rparr>,
    \<lparr>pname = ''message'', ptype = ''string'', penum = None, pdefault = None\<rparr>,
    \<lparr>pname = ''center_on_screen'', ptype = ''boolean'', penum = None, pdefault = Some (PBool True)\<rparr>,
    \<lparr>pname = ''always_on_top'', ptype = ''boolean'', penum = None, pdefault = Some (PBool True)\<rparr>,
    \<lparr>pname = ''bring_to_front'', ptype = ''boolean'', penum = None, pdefault = Some (PBool True)\<rparr>,
    \<lparr>pname = ''auto_resize'', ptype = ''boolean'', penum = None, pdefault = Some (PBool False)\<rparr>,
    \<lparr>pname = ''resizable'', ptype = ''boolean'', penum = None, pdefault = Some (PBool False)\<rparr>,
    \<lparr>pname = ''wait_for_response'', ptype = ''boolean'', penum = None, pdefault = Some (PBool True)\<rparr>,
    \<lparr>pname = ''service_name'', ptype = ''string'', penum = None, pdefault = Some (PStr ''API Service'')\<rparr>,
    \<lparr>pname = ''service_url'', ptype = ''string'', penum = None, pdefault = Some (PStr '''')\<rparr>,
    \<lparr>pname = ''level'', ptype = ''string'', penum = Some [''info'', ''warning'', ''error'', ''success''], pdefault = Some (PStr ''info'')\<rparr>,
    \<lparr>pname = ''content'', ptype = ''string'', penum = None, pdefault = None\<rparr>,
    \<lparr>pname = ''msg_type'', ptype = ''string'', penum = Some [''question'', ''status'', ''notification'', ''response''], pdefault = Some (PStr ''status'')\<rparr>,
    \<lparr>pname = ''priority'', ptype = ''string'', penum = Some [''low'', ''normal'', ''high'', ''critical''], pdefault = Some (PStr ''normal'')\<rparr>,
    \<lparr>pname = ''requires_response'', ptype = ''boolean'', penum = None, pdefault = Some (PBool False)\<rparr>,
    \<lparr>pname = ''show_dashboard'', ptype = ''boolean'', penum = None, pdefault = Some (PBool True)\<rparr>,
    \<lparr>pname = ''mark_as_read'', ptype = ''boolean'', penum = None, pdefault = Some (PBool True)\<rparr>,
    \<lparr>pname = ''filter_type'', ptype = ''string'', penum = None, pdefault = None\<rparr>,
    \<lparr>pname = ''since_timestamp'', ptype = ''number'', penum = None, pdefault = None\<rparr>,
    \<lparr>pname = ''tool_unlock_token'', ptype = ''string'', penum = None, pdefault = None\<rparr>
  ]"

definition descriptions :: "env \<Rightarrow> (string \<times> string) list" where
  "descriptions env = [
    (''operation'',
      ''Operation to perform''),
    (''html'',
      ''HTML content to display in the popup/dialog window (mutually exclusive with url)''),
    (''url'',
      ''URL to load in the window (mutually exclusive with html)''),
    (''title'',
      ''Window title (optional, defaults to '' @ sq @ ''User Interface'' @ sq @ '')''),
    (''width'',
      ''Window width in pixels (optional, defaults to 600)''),
    (''height'',
      ''Window height in pixels (optional, defaults to 400)''),
    (''modal'',
      ''Whether the dialog should be modal (blocks other windows, optional, defaults to true)''),
    (''timeout'',
      ''Timeout in seconds to wait for user interaction (optional, 0 = no timeout)''),
    (''message'',
      ''Toast notification message text (used with show_toast operation)''),
    (''center_on_screen'',
      ''Center window on screen (optional, defaults to true)''),
    (''always_on_top'',
      ''Keep window above other windows (optional, defaults to true)''),
    (''bring_to_front'',
      ''Force window to foreground (optional, defaults to true)''),
    (''auto_resize'',
      ''Automatically resize window to fit content (optional, defaults to false)''),
    (''resizable'',
      ''Allow user to resize the window (optional, defaults to false)''),
    (''wait_for_response'',
      ''Wait for user to close window before returning (optional, defaults to true). Set to false for '' @ sq @ ''fire and forget'' @ sq @ '' mode where the window opens but AI continues immediately.''),
    (''service_name'',
      ''Name of the service requiring an API key (used with collect_api_key operation)''),
    (''service_url'',
      ''URL where users can obtain an API key (used with collect_api_key operation)''),
    (''level'',
      ''Toast notification level/severity (used with show_toast operation)''),
    (''content'',
      ''Message content text (used with send_message operation)''),
    (''msg_type'',
      ''Type of message (used with send_message operation)''),
    (''priority'',
      ''Message priority level (used with send_message operation)''),
    (''requires_response'',
      ''Whether this message requires a user response (used with send_message operation)''),
    (''show_dashboard'',
      ''Show dashboard window if hidden (used with send_message operation)''),
    (''mark_as_read'',
      ''Mark retrieved messages as read (used with check_messages operation)''),
    (''filter_type'',
      ''Filter messages by type (used with check_messages operation)''),
    (''since_timestamp'',
      ''Only get messages after this timestamp (used with check_messages operation)''),
    (''tool_unlock_token'',
      ''Security token, '' @ TOOL_UNLOCK_TOKEN env @
       '', obtained from readme operation, or re-provided any time the AI lost context or gave a wrong token'')
  ]"

definition required_parameters :: "string list" where
  "required_parameters = [''operation'', ''tool_unlock_token'']"

definition property_doc :: "env \<Rightarrow> property \<Rightarrow> string \<times> pyval" where
  "property_doc env p =
     (pname p,
      PDict ([(''type'', PStr (ptype p))]
        @ (case penum p of None \<Rightarrow> [] | Some xs \<Rightarrow> [(''enum'', PList (map PStr xs))])
        @ [(''description'', PStr (case map_of (descriptions env) (pname p) of
                                     Some t \<Rightarrow> t | None \<Rightarrow> []))]
        @ (case pdefault p of None \<Rightarrow> [] | Some v \<Rightarrow> [(''default'', v)])))"

definition real_parameters :: "env \<Rightarrow> pyval" where
  "real_parameters env =
     PDict [(''properties'', PDict (map (property_doc env) properties)),
            (''required'', PList (map PStr required_parameters)),
            (''type'', PStr ''object'')]"

definition README :: "env \<Rightarrow> string" where
  "README env = README_HEAD env @ TOOL_UNLOCK_TOKEN env @ README_TAIL env"

definition readme :: "env \<Rightarrow> bool \<Rightarrow> string" where
  "readme env with_readme =
     (if \<not> with_readme then ''''
      else ''\<newline>\<newline>'' @ json_dumps env
             (PDict [(''description'', PStr (README env)),
                     (''parameters'', real_parameters env)]))"

definition create_error_response :: "env \<Rightarrow> string \<Rightarrow> bool \<Rightarrow> envelope" where
  "create_error_response env error_msg with_readme =
     \<lparr>content_text = error_msg @ readme env with_readme, isError = True\<rparr>"

definition json_response :: "env \<Rightarrow> pyval \<Rightarrow> envelope" where
  "json_response env result = \<lparr>content_text = json_dumps env result, isError = False\<rparr>"

section \<open>Parameter validation\<close>

definition type_error :: "string \<Rightarrow> string \<Rightarrow> pyval \<Rightarrow> string option" where
  "type_error param_name expected_type v =
     (if expected_type = ''string'' \<and> \<not> isinstance_str v then
        Some (''Parameter '' @ quoted param_name @ '' must be a string, got '' @ type_name v
              @ ''. Please provide a string value.'')
      else if expected_type = ''object'' \<and> \<not> isinstance_dict v then
        Some (''Parameter '' @ quoted param_name @ '' must be an object/dictionary, got ''
              @ type_name v @ ''. Please provide a dictionary value.'')
      else if expected_type = ''integer'' \<and> \<not> isinstance_int v then
        Some (''Parameter '' @ quoted param_name @ '' must be an integer, got '' @ type_name v
              @ ''. Please provide an integer value.'')
      else if expected_type = ''boolean'' \<and> \<not> isinstance_bool v then
        Some (''Parameter '' @ quoted param_name @ '' must be a boolean, got '' @ type_name v
              @ ''. Please provide true or false.'')
      else if expected_type = ''array'' \<and> \<not> isinstance_list v then
        Some (''Parameter '' @ quoted param_name @ '' must be an array/list, got ''
              @ type_name v @ ''. Please provide a list value.'')
      else None)"

text \<open>\<^verbatim>\<open>value not in allowed_values\<close>: a value equals a string of the list only when it is
  that string.\<close>

definition not_in :: "pyval \<Rightarrow> string list \<Rightarrow> bool" where
  "not_in v xs = (case v of PStr s \<Rightarrow> s \<notin> set xs | _ \<Rightarrow> True)"

definition enum_error :: "env \<Rightarrow> string \<Rightarrow> string list option \<Rightarrow> pyval \<Rightarrow> string option" where
  "enum_error env param_name enum v =
     (case enum of
        None \<Rightarrow> None
      | Some allowed_values \<Rightarrow>
          if not_in v allowed_values then
            Some (''Parameter '' @ quoted param_name @ '' must be one of ''
                  @ str_list allowed_values @ '', got '' @ quoted (py_str env v)
                  @ ''. Please use one of the allowed values.'')
          else None)"

text \<open>The loop over \<^verbatim>\<open>properties.items()\<close>, with \<open>validated\<close> as built so far.\<close>

fun validate_loop ::
  "env \<Rightarrow> string list \<Rightarrow> pydict \<Rightarrow> property list \<Rightarrow> pydict \<Rightarrow> string option \<times> pydict"
where
  "validate_loop env required input_param [] validated = (None, validated)"
| "validate_loop env required input_param (p # ps) validated =
     (case map_of input_param (pname p) of
        Some v \<Rightarrow>
          (case type_error (pname p) (ptype p) v of
             Some msg \<Rightarrow> (Some msg, [])
           | None \<Rightarrow>
               (case enum_error env (pname p) (penum p) v of
                  Some msg \<Rightarrow> (Some msg, [])
                | None \<Rightarrow>
                    validate_loop env required input_param ps (dict_set validated (pname p) v)))
      | None \<Rightarrow>
          if pname p \<in> set required then
            (Some (''Required parameter '' @ quoted (pname p)
                   @ '' is missing. Please provide this required parameter.''), [])
          else
            (case pdefault p of
               Some default_value \<Rightarrow>
                 validate_loop env required input_param ps
                   (dict_set validated (pname p) default_value)
             | None \<Rightarrow> validate_loop env required input_param ps validated))"

definition validate_parameters :: "env \<Rightarrow> pydict \<Rightarrow> string option \<times> pydict" where
  "validate_parameters env input_param =
     (let required = (if py_get input_param ''operation'' PNone = PStr ''readme''
                      then [''operation''] else required_parameters);
          expected_params = map pname properties;
          provided_params = map fst input_param;
          unexpected_params = filter (\<lambda>k. k \<notin> set expected_params) provided_params;
          missing_required = filter (\<lambda>k. k \<notin> set provided_params) required
      in if unexpected_params \<noteq> [] then
           (Some (''Unexpected parameters provided: ''
                  @ join '', '' (sort (remdups unexpected_params))
                  @ ''. Expected parameters are: ''
                  @ join '', '' (sort (remdups expected_params))
                  @ ''. Please consult the attached doc.''), [])
         else if missing_required \<noteq> [] then
           (Some (''Missing required parameters: ''
                  @ join '', '' (sort (remdups missing_required))
                  @ ''. Required parameters are: ''
                  @ join '', '' (sort (remdups required))), [])
         else validate_loop env required input_param properties [])"

section \<open>The operations\<close>

text \<open>
  Every operation takes the world and returns its result with the world it leaves.
  The three helpers of the source whose names start with an underscore are
  \<open>test_queue_message_passing\<close>, \<open>show_webengine_window\<close> and \<open>emit_toast_message\<close>
  here. Each of them, and each operation, ends in a handler for every \<^verbatim>\<open>Exception\<close>,
  so none of them raises: the handlers that nothing in the body can reach are left out.
\<close>

definition USER_TOOL_VERSION :: string where
  "USER_TOOL_VERSION = ''2025.09.13.009''"

definition no_ui_queue_qt :: pyval where
  "no_ui_queue_qt =
     PDict [(''status'', PStr ''error''),
            (''error'', PStr ''No UI request queue available. Ensure friday.py is running with Qt support.'')]"

subsection \<open>test_queue\<close>

definition test_queue_message_passing :: "env \<Rightarrow> world \<Rightarrow> pyval \<Rightarrow> pyval \<times> world" where
  "test_queue_message_passing env st message =
     (case friday_ui_queue st of
        None \<Rightarrow> (no_ui_queue_qt, st)
      | Some request_queue \<Rightarrow>
          (let request_data = PDict [(''message'', message),
                                     (''timestamp'', time_time env),
                                     (''user_tool_version'', PStr USER_TOOL_VERSION)];
               ui_request = \<lparr>req_operation = ''test_queue'', req_data = request_data\<rparr>;
               st1 = queue_put st request_queue ui_request
           in case reply_queue_get env st1 ui_request (PInt 10) of
                (Inr response, st2) \<Rightarrow> (response, st2)
              | (Inl Queue_Empty, st2) \<Rightarrow>
                  (PDict [(''status'', PStr ''timeout''),
                          (''error'', PStr ''Queue test timed out after 10 seconds'')], st2)
              | (Inl e, st2) \<Rightarrow>
                  (PDict [(''status'', PStr ''error''),
                          (''error'', PStr (''Error in queue test communication: '' @ str_exn e))],
                   st2)))"

definition test_queue_communication :: "env \<Rightarrow> world \<Rightarrow> pydict \<Rightarrow> envelope \<times> world" where
  "test_queue_communication env st params =
     (let message = py_get params ''message'' (PStr ''Hello from user.py'');
          (result, st') = test_queue_message_passing env st message
      in (json_response env result, st'))"

subsection \<open>show_popup and show_dialog\<close>

text \<open>\<^verbatim>\<open>timeout + 5 if timeout > 0 else 65\<close>; comparing a value that is no number with
  \<^verbatim>\<open>0\<close> raises, and the sum of a float and 5 is rounded.\<close>

definition max_wait_time :: "env \<Rightarrow> pyval \<Rightarrow> exn + pyval" where
  "max_wait_time env timeout =
     (case timeout of
        PInt i \<Rightarrow> Inr (if i > 0 then PInt (i + 5) else PInt 65)
      | PBool b \<Rightarrow> Inr (if b then PInt 6 else PInt 65)
      | PFloat r \<Rightarrow> Inr (if r > 0 then PFloat (float_add env r 5) else PInt 65)
      | v \<Rightarrow> Inl (TypeError (sq @ ''>'' @ sq @ '' not supported between instances of ''
                               @ quoted (type_name v) @ '' and '' @ quoted ''int'')))"

definition async_success :: pyval where
  "async_success =
     PDict [(''status'', PStr ''success''),
            (''message'', PStr ''Window opened successfully (async mode - not waiting for user response)''),
            (''async'', PBool True)]"

definition ui_timeout :: "env \<Rightarrow> pyval \<Rightarrow> pyval" where
  "ui_timeout env bound =
     PDict [(''status'', PStr ''timeout''),
            (''error'', PStr (''UI request timed out after '' @ py_str env bound @ '' seconds''))]"

definition ui_error :: "exn \<Rightarrow> pyval" where
  "ui_error e =
     PDict [(''status'', PStr ''error''),
            (''error'', PStr (''Error in UI communication: '' @ str_exn e))]"

definition show_webengine_window ::
  "env \<Rightarrow> world \<Rightarrow> pyval \<Rightarrow> pyval \<Rightarrow> pyval \<Rightarrow> pyval \<Rightarrow> pyval \<Rightarrow> pyval \<Rightarrow> pyval \<Rightarrow> pyval \<Rightarrow> pyval
     \<Rightarrow> pyval \<Rightarrow> pyval \<Rightarrow> pyval \<Rightarrow> pyval \<Rightarrow> pyval \<times> world"
where
  "show_webengine_window env st html title width height modal timeout center_on_screen
       always_on_top bring_to_front auto_resize url resizable wait_for_response =
     (case friday_ui_queue st of
        None \<Rightarrow> (no_ui_queue_qt, st)
      | Some request_queue \<Rightarrow>
          (let request_data = PDict [(''html'', html),
                                     (''url'', url),
                                     (''title'', title),
                                     (''width'', width),
                                     (''height'', height),
                                     (''modal'', modal),
                                     (''timeout'', timeout),
                                     (''center_on_screen'', center_on_screen),
                                     (''always_on_top'', always_on_top),
                                     (''bring_to_front'', bring_to_front),
                                     (''auto_resize'', auto_resize),
                                     (''resizable'', resizable)];
               ui_request = \<lparr>req_operation = ''show_popup'', req_data = request_data\<rparr>;
               st1 = queue_put st request_queue ui_request
           in if \<not> truthy wait_for_response then (async_success, st1)
              else
                (case max_wait_time env timeout of
                   Inl e \<Rightarrow> (ui_error e, st1)
                 | Inr bound \<Rightarrow>
                     (case reply_queue_get env st1 ui_request bound of
                        (Inr response, st2) \<Rightarrow> (response, st2)
                      | (Inl Queue_Empty, st2) \<Rightarrow> (ui_timeout env bound, st2)
                      | (Inl e, st2) \<Rightarrow> (ui_error e, st2)))))"

text \<open>\<^verbatim>\<open>not isinstance(v, int) or v <= 0\<close> and \<^verbatim>\<open>not isinstance(v, int) or v < 0\<close>.\<close>

definition not_positive_int :: "pyval \<Rightarrow> bool" where
  "not_positive_int v =
     (case v of PInt i \<Rightarrow> i \<le> 0 | PBool b \<Rightarrow> \<not> b | _ \<Rightarrow> True)"

definition not_nonnegative_int :: "pyval \<Rightarrow> bool" where
  "not_nonnegative_int v =
     (case v of PInt i \<Rightarrow> i < 0 | PBool b \<Rightarrow> False | _ \<Rightarrow> True)"

text \<open>
  \<^verbatim>\<open>show_html_window\<close> first runs a chain of checks, each returning
  \<^verbatim>\<open>create_error_response(msg, with_readme=b)\<close>: \<open>window_params_error\<close> is the first
  check that fails, with its message and its \<open>b\<close>. Then it calls
  \<^verbatim>\<open>_show_webengine_window\<close> and wraps the result.
\<close>

definition boolean_error :: "string \<Rightarrow> pyval \<Rightarrow> (string \<times> bool) option" where
  "boolean_error param_name v =
     (if \<not> isinstance_bool v then
        Some (''Parameter '' @ quoted param_name @ '' must be a boolean, got '' @ type_name v
              @ ''.'', False)
      else None)"

definition first_error :: "(string \<times> bool) option list \<Rightarrow> (string \<times> bool) option" where
  "first_error checks = (case List.find (\<lambda>c. c \<noteq> None) checks of Some c \<Rightarrow> c | None \<Rightarrow> None)"

definition window_params_error :: "env \<Rightarrow> pydict \<Rightarrow> (string \<times> bool) option" where
  "window_params_error env params =
     (let html = py_get params ''html'' PNone;
          url = py_get params ''url'' PNone;
          title = py_get params ''title'' (PStr ''User Interface'');
          width = py_get params ''width'' (PInt 600);
          height = py_get params ''height'' (PInt 400);
          resizable = py_get params ''resizable'' (PBool False);
          modal = py_get params ''modal'' (PBool True);
          timeout = py_get params ''timeout'' (PInt 0);
          center_on_screen = py_get params ''center_on_screen'' (PBool True);
          always_on_top = py_get params ''always_on_top'' (PBool True);
          bring_to_front = py_get params ''bring_to_front'' (PBool True);
          auto_resize = py_get params ''auto_resize'' (PBool False);
          wait_for_response = py_get params ''wait_for_response'' (PBool True)
      in first_error
          [if \<not> truthy html \<and> \<not> truthy url then
             Some (''Missing required parameter: must provide either '' @ quoted ''html''
                   @ '' or '' @ quoted ''url'', True)
           else None,
           if truthy html \<and> truthy url then
             Some (''Cannot specify both '' @ quoted ''html'' @ '' and '' @ quoted ''url''
                   @ '' - choose one'', True)
           else None,
           if truthy html \<and> \<not> isinstance_str html then
             Some (''Parameter '' @ quoted ''html'' @ '' must be a string, got ''
                   @ type_name html @ ''. Please provide HTML content as a string.'', True)
           else None,
           if truthy url \<and> \<not> isinstance_str url then
             Some (''Parameter '' @ quoted ''url'' @ '' must be a string, got ''
                   @ type_name url @ ''.'', True)
           else None,
           if \<not> isinstance_str title then
             Some (''Parameter '' @ quoted ''title'' @ '' must be a string, got ''
                   @ type_name title @ ''.'', False)
           else None,
           if not_positive_int width then
             Some (''Parameter '' @ quoted ''width'' @ '' must be a positive integer, got ''
                   @ py_str env width @ ''.'', False)
           else None,
           if not_positive_int height then
             Some (''Parameter '' @ quoted ''height'' @ '' must be a positive integer, got ''
                   @ py_str env height @ ''.'', False)
           else None,
           boolean_error ''modal'' modal,
           if not_nonnegative_int timeout then
             Some (''Parameter '' @ quoted ''timeout''
                   @ '' must be a non-negative integer, got '' @ py_str env timeout @ ''.'',
                   False)
           else None,
           boolean_error ''center_on_screen'' center_on_screen,
           boolean_error ''always_on_top'' always_on_top,
           boolean_error ''bring_to_front'' bring_to_front,
           boolean_error ''auto_resize'' auto_resize,
           boolean_error ''resizable'' resizable,
           boolean_error ''wait_for_response'' wait_for_response])"

definition show_html_window :: "env \<Rightarrow> world \<Rightarrow> pydict \<Rightarrow> envelope \<times> world" where
  "show_html_window env st params =
     (case window_params_error env params of
        Some (msg, with_readme) \<Rightarrow> (create_error_response env msg with_readme, st)
      | None \<Rightarrow>
          (let (result, st') =
                 show_webengine_window env st
                   (py_get params ''html'' PNone)
                   (py_get params ''title'' (PStr ''User Interface''))
                   (py_get params ''width'' (PInt 600))
                   (py_get params ''height'' (PInt 400))
                   (py_get params ''modal'' (PBool True))
                   (py_get params ''timeout'' (PInt 0))
                   (py_get params ''center_on_screen'' (PBool True))
                   (py_get params ''always_on_top'' (PBool True))
                   (py_get params ''bring_to_front'' (PBool True))
                   (py_get params ''auto_resize'' (PBool False))
                   (py_get params ''url'' PNone)
                   (py_get params ''resizable'' (PBool False))
                   (py_get params ''wait_for_response'' (PBool True))
           in (json_response env result, st')))"

subsection \<open>show_toast\<close>

definition level_prefixes :: "(string \<times> string) list" where
  "level_prefixes =
     [(''info'', [CHR 0xE2, CHR 0x80, CHR 0x9A, CHR 0xC3, CHR 0x91, CHR 0xCF, CHR 0x80,
                  CHR 0xC3, CHR 0x94, CHR 0xE2, CHR 0x88, CHR 0x8F, CHR 0xC3, CHR 0xA8]),
      (''success'', [CHR 0xE2, CHR 0x80, CHR 0x9A, CHR 0xC3, CHR 0xBA, CHR 0xC3, CHR 0x96]),
      (''warning'', [CHR 0xE2, CHR 0x80, CHR 0x9A, CHR 0xC3, CHR 0xB6, CHR 0xE2, CHR 0x80,
                     CHR 0xA0, CHR 0xC3, CHR 0x94, CHR 0xE2, CHR 0x88, CHR 0x8F, CHR 0xC3,
                     CHR 0xA8]),
      (''error'', [CHR 0xE2, CHR 0x80, CHR 0x9A, CHR 0xC3, CHR 0xB9, CHR 0xC3, CHR 0xA5])]"

definition toast_error :: "string \<Rightarrow> pyval" where
  "toast_error msg = PDict [(''status'', PStr ''error''), (''error'', PStr msg)]"

definition emit_toast_message :: "env \<Rightarrow> world \<Rightarrow> string \<Rightarrow> string \<Rightarrow> pyval \<times> world" where
  "emit_toast_message env st message level =
     (case engine env of
        No_Main_Module \<Rightarrow>
          (toast_error ''Could not access friday.py module. Ensure server was started via friday.py.'', st)
      | No_Engine \<Rightarrow>
          (toast_error ''No engine instance available. Ensure friday.py is running with Qt support.'', st)
      | No_Emit_Method \<Rightarrow>
          (toast_error ''Engine does not have _emit_message method. Ensure friday.py version supports toast messages.'', st)
      | Emit_Raises e \<Rightarrow>
          (toast_error (''Failed to emit toast message: '' @ str_exn e), st)
      | Emit_Returns \<Rightarrow>
          (let prefix = (case map_of level_prefixes level of
                           Some p \<Rightarrow> p
                         | None \<Rightarrow> [CHR 0xE2, CHR 0x80, CHR 0x9A, CHR 0xC3, CHR 0x91, CHR 0xCF,
                                     CHR 0x80, CHR 0xC3, CHR 0x94, CHR 0xE2, CHR 0x88, CHR 0x8F,
                                     CHR 0xC3, CHR 0xA8]);
               formatted_message = prefix @ '' '' @ message
           in (PDict [(''status'', PStr ''success''),
                      (''message'', PStr ''Toast notification sent successfully''),
                      (''level'', PStr level),
                      (''text'', PStr message)],
               st\<lparr>emitted := emitted st @ [(formatted_message, PStr level)]\<rparr>)))"

definition valid_levels :: "string list" where
  "valid_levels = [''info'', ''warning'', ''error'', ''success'']"

definition show_toast_notification :: "env \<Rightarrow> world \<Rightarrow> pydict \<Rightarrow> envelope \<times> world" where
  "show_toast_notification env st params =
     (let message = py_get params ''message'' PNone;
          level = py_get params ''level'' (PStr ''info'')
      in if \<not> truthy message then
           (create_error_response env
              (''Missing required parameter: '' @ quoted ''message''
               @ '' is required for show_toast operation'') True, st)
         else
           (case message of
              PStr m \<Rightarrow>
                (case level of
                   PStr l \<Rightarrow>
                     if l \<notin> set valid_levels then
                       (create_error_response env
                          (''Parameter '' @ quoted ''level'' @ '' must be one of ''
                           @ str_list valid_levels @ '', got '' @ quoted l) False, st)
                     else
                       (let (result, st') = emit_toast_message env st m l
                        in (json_response env result, st'))
                 | v \<Rightarrow>
                     (create_error_response env
                        (''Parameter '' @ quoted ''level'' @ '' must be one of ''
                         @ str_list valid_levels @ '', got '' @ quoted (py_str env v)) False, st))
            | v \<Rightarrow>
                (create_error_response env
                   (''Parameter '' @ quoted ''message'' @ '' must be a string, got ''
                    @ type_name v) False, st)))"

subsection \<open>collect_api_key\<close>

definition collect_api_key_from_user :: "env \<Rightarrow> world \<Rightarrow> pydict \<Rightarrow> envelope \<times> world" where
  "collect_api_key_from_user env st params =
     (let service_name = py_get params ''service_name'' (PStr ''API Service'');
          service_url = py_get params ''service_url'' (PStr '''')
      in case generate_api_key_collection_html env service_name service_url of
           Inl e \<Rightarrow>
             (create_error_response env (''Error collecting API key: '' @ str_exn e) False, st)
         | Inr html \<Rightarrow>
             (let window_params =
                    [(''html'', PStr html),
                     (''title'', PStr (py_str env service_name @ '' API Key Required'')),
                     (''width'', PInt 550),
                     (''height'', PInt 450),
                     (''modal'', PBool True),
                     (''timeout'', PInt 300),
                     (''center_on_screen'', PBool True),
                     (''always_on_top'', PBool True),
                     (''bring_to_front'', PBool True),
                     (''auto_resize'', PBool False),
                     (''operation'', PStr ''show_dialog'')]
              in show_html_window env st window_params))"

subsection \<open>The message dashboard\<close>

text \<open>
  \<^verbatim>\<open>content[:50]\<close>, cut for the log line of \<^verbatim>\<open>send_message\<close>: a string or a list
  can be sliced, any other value raises (for a dictionary with the text of Python 3.11).
  \<^verbatim>\<open>response.get(key, [])\<close> needs a dictionary, and \<^verbatim>\<open>len\<close> a string (counted in code
  points: the bytes that do not continue a UTF-8 sequence), a list or a dictionary.
\<close>

definition slice_exn :: "pyval \<Rightarrow> exn option" where
  "slice_exn v =
     (case v of
        PStr s \<Rightarrow> None
      | PList xs \<Rightarrow> None
      | PDict d \<Rightarrow> Some (TypeError (''unhashable type: '' @ quoted ''slice''))
      | _ \<Rightarrow> Some (TypeError (quoted (type_name v) @ '' object is not subscriptable'')))"

definition response_get :: "pyval \<Rightarrow> string \<Rightarrow> exn + pyval" where
  "response_get response k =
     (case response of
        PDict d \<Rightarrow> Inr (py_get d k (PList []))
      | v \<Rightarrow> Inl (AttributeError (quoted (type_name v) @ '' object has no attribute ''
                                   @ quoted ''get'')))"

definition py_len :: "pyval \<Rightarrow> exn + int" where
  "py_len v =
     (case v of
        PStr s \<Rightarrow> Inr (int (length (filter (\<lambda>c. \<not> (128 \<le> (of_char c :: nat) \<and> (of_char c :: nat) < 192)) s)))
      | PList xs \<Rightarrow> Inr (int (length xs))
      | PDict d \<Rightarrow> Inr (int (length d))
      | _ \<Rightarrow> Inl (TypeError (''object of type '' @ quoted (type_name v) @ '' has no len()'')))"

definition send_message_to_user :: "env \<Rightarrow> world \<Rightarrow> pydict \<Rightarrow> envelope \<times> world" where
  "send_message_to_user env st params =
     (let content = py_get params ''content'' PNone
      in if \<not> truthy content then
           (create_error_response env ''Missing required parameter: content'' False, st)
         else
           (let msg_type = py_get params ''msg_type'' (PStr ''status'');
                priority = py_get params ''priority'' (PStr ''normal'');
                requires_response = py_get params ''requires_response'' (PBool False);
                show_dashboard = py_get params ''show_dashboard'' (PBool True);
                message = PDict [(''id'', PStr (uuid4 env)),
                                 (''timestamp'', time_time env),
                                 (''direction'', PStr ''ai_to_user''),
                                 (''type'', msg_type),
                                 (''priority'', priority),
                                 (''content'', content),
                                 (''requires_response'', requires_response),
                                 (''status'', PStr ''pending'')]
            in case slice_exn content of
                 Some e \<Rightarrow>
                   (create_error_response env (''Error in send_message: '' @ str_exn e) False, st)
               | None \<Rightarrow>
                   (case friday_ui_queue st of
                      None \<Rightarrow>
                        (create_error_response env
                           ''No UI request queue available. Ensure friday.py is running.'' False, st)
                    | Some request_queue \<Rightarrow>
                        (let request_data = PDict [(''operation'', PStr ''send_message''),
                                                   (''message'', message),
                                                   (''show_dashboard'', show_dashboard)];
                             ui_request = \<lparr>req_operation = ''send_message'',
                                           req_data = request_data\<rparr>;
                             st1 = queue_put st request_queue ui_request
                         in case reply_queue_get env st1 ui_request (PInt 5) of
                              (Inr response, st2) \<Rightarrow>
                                (json_response env
                                   (PDict [(''message_id'', PStr (uuid4 env)),
                                           (''status'', PStr ''queued''),
                                           (''timestamp'', time_time env)]), st2)
                            | (Inl Queue_Empty, st2) \<Rightarrow>
                                (create_error_response env
                                   ''Timeout waiting for message queue confirmation'' False, st2)
                            | (Inl e, st2) \<Rightarrow>
                                (create_error_response env
                                   (''Error sending message: '' @ str_exn e) False, st2)))))"

text \<open>The two operations that read a list out of the reply share their shape: the key
  read, the name of the list in the answer and the two error texts differ.\<close>

definition listing_response :: "env \<Rightarrow> string \<Rightarrow> string \<Rightarrow> pyval \<Rightarrow> envelope" where
  "listing_response env k failure response =
     (case response_get response k of
        Inl e \<Rightarrow> create_error_response env (failure @ str_exn e) False
      | Inr items \<Rightarrow>
          (case py_len items of
             Inl e \<Rightarrow> create_error_response env (failure @ str_exn e) False
           | Inr n \<Rightarrow> json_response env (PDict [(k, items), (''count'', PInt n)])))"

definition check_user_messages :: "env \<Rightarrow> world \<Rightarrow> pydict \<Rightarrow> envelope \<times> world" where
  "check_user_messages env st params =
     (let mark_as_read = py_get params ''mark_as_read'' (PBool True);
          filter_type = py_get params ''filter_type'' PNone;
          since_timestamp = py_get params ''since_timestamp'' PNone
      in case friday_ui_queue st of
           None \<Rightarrow>
             (create_error_response env
                ''No UI request queue available. Ensure friday.py is running.'' False, st)
         | Some request_queue \<Rightarrow>
             (let request_data = PDict [(''operation'', PStr ''check_messages''),
                                        (''mark_as_read'', mark_as_read),
                                        (''filter_type'', filter_type),
                                        (''since_timestamp'', since_timestamp)];
                  ui_request = \<lparr>req_operation = ''check_messages'', req_data = request_data\<rparr>;
                  st1 = queue_put st request_queue ui_request
              in case reply_queue_get env st1 ui_request (PInt 5) of
                   (Inr response, st2) \<Rightarrow>
                     (listing_response env ''messages'' ''Error checking messages: '' response, st2)
                 | (Inl Queue_Empty, st2) \<Rightarrow>
                     (create_error_response env
                        ''Timeout waiting for message check response'' False, st2)
                 | (Inl e, st2) \<Rightarrow>
                     (create_error_response env
                        (''Error checking messages: '' @ str_exn e) False, st2)))"

definition show_message_dashboard :: "env \<Rightarrow> world \<Rightarrow> pydict \<Rightarrow> envelope \<times> world" where
  "show_message_dashboard env st params =
     (case friday_ui_queue st of
        None \<Rightarrow>
          (create_error_response env
             ''No UI request queue available. Ensure friday.py is running.'' False, st)
      | Some request_queue \<Rightarrow>
          (let request_data = PDict [(''operation'', PStr ''show_dashboard'')];
               ui_request = \<lparr>req_operation = ''show_dashboard'', req_data = request_data\<rparr>;
               st1 = queue_put st request_queue ui_request
           in case reply_queue_get env st1 ui_request (PInt 10) of
                (Inr response, st2) \<Rightarrow>
                  (json_response env
                     (PDict [(''status'', PStr ''success''),
                             (''message'', PStr ''Dashboard shown'')]), st2)
              | (Inl Queue_Empty, st2) \<Rightarrow>
                  (create_error_response env ''Timeout waiting for dashboard to show'' False, st2)
              | (Inl e, st2) \<Rightarrow>
                  (create_error_response env
                     (''Error showing dashboard: '' @ str_exn e) False, st2)))"

definition hide_message_dashboard :: "env \<Rightarrow> world \<Rightarrow> pydict \<Rightarrow> envelope \<times> world" where
  "hide_message_dashboard env st params =
     (case friday_ui_queue st of
        None \<Rightarrow> (create_error_response env ''No UI request queue available.'' False, st)
      | Some request_queue \<Rightarrow>
          (let ui_request = \<lparr>req_operation = ''hide_dashboard'',
                             req_data = PDict [(''operation'', PStr ''hide_dashboard'')]\<rparr>;
               st1 = queue_put st request_queue ui_request
           in case reply_queue_get env st1 ui_request (PInt 5) of
                (Inr response, st2) \<Rightarrow>
                  (json_response env
                     (PDict [(''status'', PStr ''success''),
                             (''message'', PStr ''Dashboard hidden'')]), st2)
              | (Inl Queue_Empty, st2) \<Rightarrow>
                  (create_error_response env ''Timeout waiting for dashboard to hide'' False, st2)
              | (Inl e, st2) \<Rightarrow>
                  (create_error_response env
                     (''Error hiding dashboard: '' @ str_exn e) False, st2)))"

definition get_message_history :: "env \<Rightarrow> world \<Rightarrow> pydict \<Rightarrow> envelope \<times> world" where
  "get_message_history env st params =
     (case friday_ui_queue st of
        None \<Rightarrow> (create_error_response env ''No UI request queue available.'' False, st)
      | Some request_queue \<Rightarrow>
          (let ui_request = \<lparr>req_operation = ''get_message_history'',
                             req_data = PDict [(''operation'', PStr ''get_message_history'')]\<rparr>;
               st1 = queue_put st request_queue ui_request
           in case reply_queue_get env st1 ui_request (PInt 5) of
                (Inr response, st2) \<Rightarrow>
                  (listing_response env ''history'' ''Error getting message history: '' response,
                   st2)
              | (Inl Queue_Empty, st2) \<Rightarrow>
                  (create_error_response env ''Timeout waiting for message history'' False, st2)
              | (Inl e, st2) \<Rightarrow>
                  (create_error_response env
                     (''Error getting message history: '' @ str_exn e) False, st2)))"

definition clear_message_queues :: "env \<Rightarrow> world \<Rightarrow> pydict \<Rightarrow> envelope \<times> world" where
  "clear_message_queues env st params =
     (case friday_ui_queue st of
        None \<Rightarrow> (create_error_response env ''No UI request queue available.'' False, st)
      | Some request_queue \<Rightarrow>
          (let ui_request = \<lparr>req_operation = ''clear_messages'',
                             req_data = PDict [(''operation'', PStr ''clear_messages'')]\<rparr>;
               st1 = queue_put st request_queue ui_request
           in case reply_queue_get env st1 ui_request (PInt 5) of
                (Inr response, st2) \<Rightarrow>
                  (json_response env
                     (PDict [(''status'', PStr ''success''),
                             (''message'', PStr ''Message queues cleared'')]), st2)
              | (Inl Queue_Empty, st2) \<Rightarrow>
                  (create_error_response env ''Timeout waiting for clear confirmation'' False, st2)
              | (Inl e, st2) \<Rightarrow>
                  (create_error_response env
                     (''Error clearing messages: '' @ str_exn e) False, st2)))"

section \<open>The handler\<close>

text \<open>
  \<^verbatim>\<open>input_param.pop('handler_info', None)\<close>: a dictionary loses the key; any other value
  raises. Then the placeholder \<^verbatim>\<open>{"input": ...}\<close> is collapsed.
\<close>

definition pop_handler_info :: "pyval \<Rightarrow> exn + pydict" where
  "pop_handler_info input_param =
     (case input_param of
        PDict d \<Rightarrow> Inr (AList.delete ''handler_info'' d)
      | PList xs \<Rightarrow> Inl (TypeError ''pop expected at most 1 argument, got 2'')
      | v \<Rightarrow> Inl (AttributeError (quoted (type_name v) @ '' object has no attribute ''
                                   @ quoted ''pop'')))"

definition collapse_input :: "pydict \<Rightarrow> pyval" where
  "collapse_input d = (case map_of d ''input'' of Some inner \<Rightarrow> inner | None \<Rightarrow> PDict d)"

text \<open>
  The inter-tool token \<^verbatim>\<open>"-{calling_tool_token}-{target_tool_token}"\<close>:
  \<^verbatim>\<open>provided_token[1:].split("-", 1)\<close> cuts the rest at its first \<^verbatim>\<open>-\<close>.
  A token that is true but no string has no \<^verbatim>\<open>startswith\<close>: that test stands outside
  the \<^verbatim>\<open>try\<close> of the parser, so it raises.
\<close>

definition split_once :: "string \<Rightarrow> string list" where
  "split_once s =
     (if CHR ''-'' \<in> set s
      then [takeWhile (\<lambda>c. c \<noteq> CHR ''-'') s, tl (dropWhile (\<lambda>c. c \<noteq> CHR ''-'') s)]
      else [s])"

definition startswith_dash :: "string \<Rightarrow> bool" where
  "startswith_dash s = (case s of [] \<Rightarrow> False | c # cs \<Rightarrow> c = CHR ''-'')"

definition is_inter_tool_call :: "env \<Rightarrow> pyval \<Rightarrow> exn + bool" where
  "is_inter_tool_call env provided_token =
     (if \<not> truthy provided_token then Inr False
      else
        (case provided_token of
           PStr s \<Rightarrow>
             if startswith_dash s then
               (case split_once (tl s) of
                  [calling_tool_token, target_tool_token] \<Rightarrow>
                    Inr (target_tool_token = TOOL_UNLOCK_TOKEN env)
                | parts \<Rightarrow> Inr False)
             else Inr False
         | v \<Rightarrow> Inl (AttributeError (quoted (type_name v) @ '' object has no attribute ''
                                      @ quoted ''startswith''))))"

text \<open>The gate of line 1906: \<open>Inr True\<close> when the call is turned away.\<close>

definition token_rejected :: "env \<Rightarrow> pyval \<Rightarrow> exn + bool" where
  "token_rejected env provided_token =
     (case is_inter_tool_call env provided_token of
        Inl e \<Rightarrow> Inl e
      | Inr is_inter \<Rightarrow> Inr (provided_token \<noteq> PStr (TOOL_UNLOCK_TOKEN env) \<and> \<not> is_inter))"

definition invalid_token_response :: "env \<Rightarrow> envelope" where
  "invalid_token_response env =
     create_error_response env
       ''Invalid or missing tool_unlock_token: this indicates your context is missing the following details, which are needed to correctly use this tool:''
       True"

definition readme_response :: "env \<Rightarrow> envelope" where
  "readme_response env = \<lparr>content_text = readme env True, isError = False\<rparr>"

text \<open>The chain \<^verbatim>\<open>if operation == ... elif ...\<close> over the validated parameters;
  \<open>valid_operations\<close> is the enum of the property \<^verbatim>\<open>operation\<close>.\<close>

definition valid_operations :: "string list" where
  "valid_operations =
     (case find (\<lambda>p. pname p = ''operation'') properties of
        Some p \<Rightarrow> (case penum p of Some xs \<Rightarrow> xs | None \<Rightarrow> [])
      | None \<Rightarrow> [])"

definition dispatch_operation :: "env \<Rightarrow> world \<Rightarrow> pydict \<Rightarrow> envelope \<times> world" where
  "dispatch_operation env st validated_params =
     (let op = py_get validated_params ''operation'' PNone
      in if op = PStr ''test_queue'' then test_queue_communication env st validated_params
         else if op = PStr ''show_toast'' then show_toast_notification env st validated_params
         else if op = PStr ''collect_api_key'' then
           collect_api_key_from_user env st validated_params
         else if op = PStr ''show_popup'' \<or> op = PStr ''show_dialog'' then
           show_html_window env st
             (if op = PStr ''show_popup'' then dict_set validated_params ''modal'' (PBool False)
              else if \<not> has_key validated_params ''modal''
                   then dict_set validated_params ''modal'' (PBool True)
              else validated_params)
         else if op = PStr ''send_message'' then send_message_to_user env st validated_params
         else if op = PStr ''check_messages'' then check_user_messages env st validated_params
         else if op = PStr ''show_dashboard'' then
           show_message_dashboard env st validated_params
         else if op = PStr ''hide_dashboard'' then
           hide_message_dashboard env st validated_params
         else if op = PStr ''get_message_history'' then
           get_message_history env st validated_params
         else if op = PStr ''clear_messages'' then clear_message_queues env st validated_params
         else if op = PStr ''readme'' then (readme_response env, st)
         else
           (create_error_response env
              (''Unknown operation: '' @ quoted (py_str env op) @ ''. Available operations: ''
               @ join '', '' valid_operations) True, st))"

text \<open>Validation against the schema, then the dispatch (lines 1909 to 1972).\<close>

definition validate_and_dispatch :: "env \<Rightarrow> world \<Rightarrow> pydict \<Rightarrow> envelope \<times> world" where
  "validate_and_dispatch env st input_param =
     (case validate_parameters env input_param of
        (Some error_msg, validated_params) \<Rightarrow>
          if error_msg \<noteq> [] then (create_error_response env error_msg True, st)
          else dispatch_operation env st validated_params
      | (None, validated_params) \<Rightarrow> dispatch_operation env st validated_params)"

text \<open>The body of the \<^verbatim>\<open>try\<close> of \<^verbatim>\<open>handle_user\<close>: \<open>Inl e\<close> when it raises \<open>e\<close>.\<close>

definition handle_user_try :: "env \<Rightarrow> world \<Rightarrow> pyval \<Rightarrow> exn + envelope \<times> world" where
  "handle_user_try env st input_param =
     (case pop_handler_info input_param of
        Inl e \<Rightarrow> Inl e
      | Inr popped \<Rightarrow>
          (case collapse_input popped of
             PDict d \<Rightarrow>
               if py_get d ''operation'' PNone = PStr ''readme'' then
                 Inr (readme_response env, st)
               else
                 (let provided_token = py_get d ''tool_unlock_token'' PNone
                  in case token_rejected env provided_token of
                       Inl e \<Rightarrow> Inl e
                     | Inr True \<Rightarrow> Inr (invalid_token_response env, st)
                     | Inr False \<Rightarrow> Inr (validate_and_dispatch env st d))
           | v \<Rightarrow>
               Inr (create_error_response env
                      ''Invalid input format. Expected dictionary with tool parameters.'' True,
                    st)))"

definition handle_user :: "env \<Rightarrow> world \<Rightarrow> pyval \<Rightarrow> envelope \<times> world" where
  "handle_user env st input_param =
     (case handle_user_try env st input_param of
        Inr result \<Rightarrow> result
      | Inl e \<Rightarrow>
          (create_error_response env
             (''Error in user interaction operation: '' @ str_exn e) True, st))"

section \<open>Notions used in the statements\<close>

text \<open>
  The request that \<open>show_webengine_window\<close> builds from its arguments, the request and
  the call that \<open>show_html_window\<close> makes for a dictionary of parameters, and the
  dictionary that the dispatch hands to \<open>show_html_window\<close> (with \<^verbatim>\<open>modal\<close> forced to
  false for \<^verbatim>\<open>show_popup\<close>). \<open>request_field\<close> reads a field of a request's payload.
\<close>

definition window_request ::
  "pyval \<Rightarrow> pyval \<Rightarrow> pyval \<Rightarrow> pyval \<Rightarrow> pyval \<Rightarrow> pyval \<Rightarrow> pyval \<Rightarrow> pyval \<Rightarrow> pyval \<Rightarrow> pyval \<Rightarrow> pyval \<Rightarrow> pyval \<Rightarrow> UIRequest" where
  "window_request h t w ht m tm c a b ar u rs =
    \<lparr>req_operation = ''show_popup'',
     req_data = PDict [(''html'', h), (''url'', u), (''title'', t), (''width'', w),
        (''height'', ht), (''modal'', m), (''timeout'', tm), (''center_on_screen'', c),
        (''always_on_top'', a), (''bring_to_front'', b), (''auto_resize'', ar),
        (''resizable'', rs)]\<rparr>"

definition params_request :: "pydict \<Rightarrow> UIRequest" where
  "params_request params =
     window_request (py_get params ''html'' PNone)
       (py_get params ''title'' (PStr ''User Interface''))
       (py_get params ''width'' (PInt 600))
       (py_get params ''height'' (PInt 400))
       (py_get params ''modal'' (PBool True))
       (py_get params ''timeout'' (PInt 0))
       (py_get params ''center_on_screen'' (PBool True))
       (py_get params ''always_on_top'' (PBool True))
       (py_get params ''bring_to_front'' (PBool True))
       (py_get params ''auto_resize'' (PBool False))
       (py_get params ''url'' PNone)
       (py_get params ''resizable'' (PBool False))"

definition params_window :: "env \<Rightarrow> world \<Rightarrow> pydict \<Rightarrow> pyval \<times> world" where
  "params_window env st params =
     show_webengine_window env st (py_get params ''html'' PNone)
       (py_get params ''title'' (PStr ''User Interface''))
       (py_get params ''width'' (PInt 600))
       (py_get params ''height'' (PInt 400))
       (py_get params ''modal'' (PBool True))
       (py_get params ''timeout'' (PInt 0))
       (py_get params ''center_on_screen'' (PBool True))
       (py_get params ''always_on_top'' (PBool True))
       (py_get params ''bring_to_front'' (PBool True))
       (py_get params ''auto_resize'' (PBool False))
       (py_get params ''url'' PNone)
       (py_get params ''resizable'' (PBool False))
       (py_get params ''wait_for_response'' (PBool True))"

definition window_params :: "pydict \<Rightarrow> pydict" where
  "window_params vp =
     (if py_get vp ''operation'' PNone = PStr ''show_popup''
      then dict_set vp ''modal'' (PBool False) else vp)"

definition request_field :: "UIRequest \<Rightarrow> string \<Rightarrow> pyval option" where
  "request_field r k = (case req_data r of PDict d \<Rightarrow> map_of d k | _ \<Rightarrow> None)"

text \<open>
  \<open>no_reply_within env b\<close>: the presentation thread answers no request within \<open>b\<close>
  seconds.
\<close>

definition no_reply_within :: "env \<Rightarrow> rat \<Rightarrow> bool" where
  "no_reply_within env b =
     (\<forall>r. case consumer env r of None \<Rightarrow> True | Some (d, v) \<Rightarrow> \<not> d \<le> b)"

text \<open>
  What holds of every outcome of the operations, once a call is past the gate: an error
  envelope carries a message, and that message does not start with the letter \<^verbatim>\<open>I\<close> (so
  it is not the gate's own \<^verbatim>\<open>Invalid or missing tool_unlock_token\<close>); the queue is
  untouched or one request longer; and without a queue no reply queue is read.
\<close>

definition frame :: "world \<Rightarrow> envelope \<times> world \<Rightarrow> bool" where
  "frame st res =
     ((isError (fst res) \<longrightarrow>
        content_text (fst res) \<noteq> [] \<and> hd (content_text (fst res)) \<noteq> CHR ''I'') \<and>
      (friday_ui_queue (snd res) = friday_ui_queue st \<or>
       (\<exists>q r. friday_ui_queue st = Some q \<and> friday_ui_queue (snd res) = Some (q @ [r]))) \<and>
      (friday_ui_queue st = None \<longrightarrow> waited (snd res) = waited st))"

text \<open>
  What the schema asks of a dictionary of parameters, said without the validator: the
  primitive type a value must have, by the kind of the value (a boolean given for an
  \<^verbatim>\<open>integer\<close> is not listed as wrong, because Python's \<^verbatim>\<open>bool\<close> is an \<^verbatim>\<open>int\<close>), and
  the four ways a dictionary can violate the schema.
\<close>

fun wrong_type :: "string \<Rightarrow> pyval \<Rightarrow> bool" where
  "wrong_type t PNone = (t \<in> set [''string'', ''object'', ''integer'', ''boolean'', ''array''])"
| "wrong_type t (PBool b) = (t \<in> set [''string'', ''object'', ''array''])"
| "wrong_type t (PInt i) = (t \<in> set [''string'', ''object'', ''boolean'', ''array''])"
| "wrong_type t (PFloat r) = (t \<in> set [''string'', ''object'', ''integer'', ''boolean'', ''array''])"
| "wrong_type t (PStr s) = (t \<in> set [''object'', ''integer'', ''boolean'', ''array''])"
| "wrong_type t (PList xs) = (t \<in> set [''string'', ''object'', ''integer'', ''boolean''])"
| "wrong_type t (PDict d) = (t \<in> set [''string'', ''integer'', ''boolean'', ''array''])"

definition outside_enum :: "string list option \<Rightarrow> pyval \<Rightarrow> bool" where
  "outside_enum enum v = (case enum of None \<Rightarrow> False | Some xs \<Rightarrow> v \<notin> set (map PStr xs))"

definition violates_schema :: "pydict \<Rightarrow> bool" where
  "violates_schema d =
     (list_ex (\<lambda>k. k \<notin> set (map pname properties)) (map fst d) \<or>
      list_ex (\<lambda>k. k \<notin> set (map fst d)) required_parameters \<or>
      list_ex (\<lambda>p. case map_of d (pname p) of
                      None \<Rightarrow> False
                    | Some v \<Rightarrow> wrong_type (ptype p) v \<or> outside_enum (penum p) v) properties)"

text \<open>
  A call that the handler serves, said on the dictionary of the call and without the
  validator. \<open>int_of\<close> is the integer that a value of the schema's type \<^verbatim>\<open>integer\<close>
  stands for (\<^verbatim>\<open>True\<close> is 1). \<open>valid_token env a tok\<close>: the token is the installation's,
  or the delegation token with the calling token \<open>a\<close> and the installation's token as its
  target. \<open>well_formed_window_call d\<close>: the operation is \<^verbatim>\<open>show_popup\<close> or
  \<^verbatim>\<open>show_dialog\<close>; the dictionary does not violate the schema; exactly one of
  \<^verbatim>\<open>html\<close> and \<^verbatim>\<open>url\<close> is a string that is not empty; \<^verbatim>\<open>width\<close> and
  \<^verbatim>\<open>height\<close>, when given, are positive, and \<^verbatim>\<open>timeout\<close> is not negative.
\<close>

definition int_of :: "pyval \<Rightarrow> int" where
  "int_of v = (case v of PInt i \<Rightarrow> i | PBool b \<Rightarrow> (if b then 1 else 0) | _ \<Rightarrow> 0)"

definition valid_token :: "env \<Rightarrow> string \<Rightarrow> pyval \<Rightarrow> bool" where
  "valid_token env a tok =
     (tok = PStr (TOOL_UNLOCK_TOKEN env) \<or>
      CHR ''-'' \<notin> set a \<and> tok = PStr (''-'' @ a @ ''-'' @ TOOL_UNLOCK_TOKEN env))"

definition well_formed_window_call :: "pydict \<Rightarrow> bool" where
  "well_formed_window_call d =
     ((py_get d ''operation'' PNone = PStr ''show_popup'' \<or>
       py_get d ''operation'' PNone = PStr ''show_dialog'') \<and>
      \<not> violates_schema d \<and>
      truthy (py_get d ''html'' PNone) \<noteq> truthy (py_get d ''url'' PNone) \<and>
      0 < int_of (py_get d ''width'' (PInt 600)) \<and>
      0 < int_of (py_get d ''height'' (PInt 400)) \<and>
      0 \<le> int_of (py_get d ''timeout'' (PInt 0)))"

text \<open>
  \<open>no_reply_ready env\<close>: no reply is there before its reply queue is read.
\<close>

definition no_reply_ready :: "env \<Rightarrow> bool" where
  "no_reply_ready env = (\<forall>r. \<not> reply_ready env r)"

text \<open>
  A concrete installation, for evaluating the handler: the token \<^verbatim>\<open>T0KEN\<close>, a
  serialiser that prints every value as \<^verbatim>\<open>{}\<close>, a presentation thread that never
  answers, the platform of CPython for Linux; a world where it has registered an empty
  queue, and one where it has registered none. \<open>env_dash\<close> is the same installation with a
  token that starts with \<^verbatim>\<open>-\<close>.
\<close>

definition env0 :: env where
  "env0 =
     \<lparr>TOOL_UNLOCK_TOKEN = ''T0KEN'',
      README_HEAD = ''Your tool_unlock_token for this installation is: '',
      README_TAIL = ''. You MUST include tool_unlock_token in the input dict.'',
      json_dumps = (\<lambda>v. ''{}''),
      py_repr = (\<lambda>v. ''?''),
      uuid4 = ''00000000-0000-4000-8000-000000000000'',
      time_time = PFloat 0,
      engine = Emit_Returns,
      generate_api_key_collection_html = (\<lambda>service_name service_url. Inr ''<html></html>''),
      consumer = (\<lambda>r. None),
      TIMEOUT_MAX = 9223372036,
      overflow_text = (\<lambda>bound. ''timestamp out of range for platform time_t''),
      float_add = (\<lambda>a b. a + b)\<rparr>"


definition st0 :: world where
  "st0 = \<lparr>friday_ui_queue = Some [], waited = [], emitted = []\<rparr>"

definition st_no_consumer :: world where
  "st_no_consumer = \<lparr>friday_ui_queue = None, waited = [], emitted = []\<rparr>"

section \<open>Auxiliary facts\<close>

subsection \<open>Envelopes, dictionaries and the validator\<close>

lemma isError_create_error_response [simp]:
  "isError (create_error_response env m w) = True"
  by (simp add: create_error_response_def)

lemma content_text_create_error_response [simp]:
  "content_text (create_error_response env m w) = m @ readme env w"
  by (simp add: create_error_response_def)

lemma json_response_sel [simp]:
  "isError (json_response env v) = False"
  "content_text (json_response env v) = json_dumps env v"
  by (simp_all add: json_response_def)

lemma readme_False [simp]: "readme env False = []"
  by (simp add: readme_def)

lemma map_of_dict_set [simp]:
  "map_of (dict_set d k v) = (map_of d)(k \<mapsto> v)"
  by (simp add: dict_set_def update_conv')

lemma py_get_dict_set:
  "py_get (dict_set d k v) k' dflt = (if k' = k then v else py_get d k' dflt)"
  by (simp add: py_get_def)

lemma type_error_nonempty:
  "type_error n t v = Some m \<Longrightarrow> m \<noteq> [] \<and> hd m \<noteq> CHR ''I''"
  by (auto simp: type_error_def split: if_splits)

lemma enum_error_nonempty:
  "enum_error env n e v = Some m \<Longrightarrow> m \<noteq> [] \<and> hd m \<noteq> CHR ''I''"
  by (auto simp: enum_error_def split: option.splits if_splits)

lemma validate_loop_error:
  "validate_loop env req inp ps acc = (Some m, vp) \<Longrightarrow>
     vp = [] \<and> m \<noteq> [] \<and> hd m \<noteq> CHR ''I''"
proof (induction ps arbitrary: acc)
  case Nil
  then show ?case by simp
next
  case (Cons p ps)
  then show ?case
    by (auto split: option.splits if_splits
             dest: type_error_nonempty enum_error_nonempty)
qed

lemma validate_parameters_error:
  "validate_parameters env d = (Some m, vp) \<Longrightarrow>
     vp = [] \<and> m \<noteq> [] \<and> hd m \<noteq> CHR ''I''"
  by (auto simp: validate_parameters_def Let_def split: if_splits dest: validate_loop_error)

lemma validate_loop_other:
  "validate_loop env req inp ps acc = (None, vp) \<Longrightarrow> k \<notin> pname ` set ps
     \<Longrightarrow> map_of vp k = map_of acc k"
proof (induction ps arbitrary: acc)
  case Nil
  then show ?case by simp
next
  case (Cons p ps)
  then show ?case
    by (fastforce split: option.splits if_splits)
qed

lemma validate_loop_lookup:
  "validate_loop env req inp ps acc = (None, vp) \<Longrightarrow> distinct (map pname ps) \<Longrightarrow> p \<in> set ps
     \<Longrightarrow> map_of vp (pname p) =
         (case map_of inp (pname p) of
            Some v \<Rightarrow> Some v
          | None \<Rightarrow> (case pdefault p of Some dv \<Rightarrow> Some dv | None \<Rightarrow> map_of acc (pname p)))"
proof (induction ps arbitrary: acc)
  case Nil
  then show ?case by simp
next
  case (Cons q ps)
  show ?case
  proof (cases "p = q")
    case True
    have notin: "pname q \<notin> pname ` set ps"
      using Cons.prems(2) by auto
    from Cons.prems(1) True show ?thesis
      by (auto split: option.splits if_splits dest!: validate_loop_other [OF _ notin])
  next
    case False
    with Cons.prems have mem: "p \<in> set ps" and dist: "distinct (map pname ps)"
      by auto
    have "pname q \<notin> pname ` set ps"
      using Cons.prems(2) by auto
    with mem have ne: "pname p \<noteq> pname q"
      by (metis imageI)
    from Cons.prems(1) show ?thesis
      using Cons.IH [OF _ dist mem] ne
      by (auto split: option.splits if_splits)
  qed
qed

lemma validate_loop_detects:
  "p \<in> set ps \<Longrightarrow> map_of inp (pname p) = Some v
     \<Longrightarrow> type_error (pname p) (ptype p) v \<noteq> None \<or> enum_error env (pname p) (penum p) v \<noteq> None
     \<Longrightarrow> fst (validate_loop env req inp ps acc) \<noteq> None"
proof (induction ps arbitrary: acc)
  case Nil
  then show ?case by simp
next
  case (Cons q ps)
  then show ?case
    by (cases "p = q") (auto split: option.splits)
qed

lemma distinct_properties: "distinct (map pname properties)"
  by (simp add: properties_def)

subsection \<open>The outcomes of the operations\<close>

lemma reply_queue_get_queue:
  "reply_queue_get env st r b = (res, st2) \<Longrightarrow> friday_ui_queue st2 = friday_ui_queue st"
  by (auto simp: reply_queue_get_def split: option.splits if_splits)

lemma reply_queue_get_PInt:
  assumes "0 \<le> n" and "n < FLOAT_LIMIT" and "of_int n \<le> TIMEOUT_MAX env"
  shows "reply_queue_get env st r (PInt n) =
     (case consumer env r of
        None \<Rightarrow> Inl Queue_Empty
      | Some (d, v) \<Rightarrow> if d \<le> of_int n then Inr v else Inl Queue_Empty,
      st\<lparr>waited := waited st @ [of_int n]\<rparr>)"
  using assms by (simp add: reply_queue_get_def no_float_def)

lemma reply_queue_get_overflow:
  assumes "0 \<le> n" and "\<not> reply_ready env r"
    and "FLOAT_LIMIT \<le> n \<or> TIMEOUT_MAX env < of_int n"
  shows "\<exists>m. reply_queue_get env st r (PInt n) = (Inl (OverflowError m), st)"
  using assms by (auto simp: reply_queue_get_def no_float_def)

lemma small_bounds:
  "(5::int) < FLOAT_LIMIT" "(10::int) < FLOAT_LIMIT" "(65::int) < FLOAT_LIMIT"
  by (simp_all add: FLOAT_LIMIT_def)

lemma frame_error [simp]:
  "m \<noteq> [] \<Longrightarrow> hd m \<noteq> CHR ''I'' \<Longrightarrow> frame st (create_error_response env m w, st)"
  by (simp add: frame_def)

lemma frame_clear: "frame st (clear_message_queues env st p)"
  by (auto simp: frame_def clear_message_queues_def queue_put_def Let_def
           split: option.splits sum.splits exn.splits if_splits prod.splits
           dest!: reply_queue_get_queue)

lemma frame_history: "frame st (get_message_history env st p)"
  by (auto simp: frame_def get_message_history_def queue_put_def Let_def
        listing_response_def
           split: option.splits sum.splits exn.splits if_splits prod.splits
           dest!: reply_queue_get_queue)

lemma frame_hide: "frame st (hide_message_dashboard env st p)"
  by (auto simp: frame_def hide_message_dashboard_def queue_put_def Let_def
           split: option.splits sum.splits exn.splits if_splits prod.splits
           dest!: reply_queue_get_queue)

lemma frame_show: "frame st (show_message_dashboard env st p)"
  by (auto simp: frame_def show_message_dashboard_def queue_put_def Let_def
           split: option.splits sum.splits exn.splits if_splits prod.splits
           dest!: reply_queue_get_queue)

lemma frame_check: "frame st (check_user_messages env st p)"
  by (auto simp: frame_def check_user_messages_def queue_put_def Let_def
        listing_response_def
           split: option.splits sum.splits exn.splits if_splits prod.splits
           dest!: reply_queue_get_queue)

lemma frame_send: "frame st (send_message_to_user env st p)"
  by (auto simp: frame_def send_message_to_user_def queue_put_def Let_def
           split: option.splits sum.splits exn.splits if_splits prod.splits
           dest!: reply_queue_get_queue)

lemma frame_test_queue: "frame st (test_queue_communication env st p)"
  by (auto simp: frame_def test_queue_communication_def test_queue_message_passing_def
        queue_put_def Let_def
           split: option.splits sum.splits exn.splits if_splits prod.splits
           dest!: reply_queue_get_queue)

lemma frame_toast: "frame st (show_toast_notification env st p)"
  by (auto simp: frame_def show_toast_notification_def emit_toast_message_def Let_def quoted_def sq_def
           split: option.splits sum.splits exn.splits if_splits prod.splits pyval.splits
                  engine_status.splits)

lemma show_webengine_window_None:
  "friday_ui_queue st = None \<Longrightarrow>
   show_webengine_window env st h t w ht m tm c a b ar u rs wt = (no_ui_queue_qt, st)"
  by (simp add: show_webengine_window_def)

lemma show_webengine_window_async:
  "friday_ui_queue st = Some q \<Longrightarrow> \<not> truthy wt \<Longrightarrow>
   show_webengine_window env st h t w ht m tm c a b ar u rs wt =
     (async_success, st\<lparr>friday_ui_queue := Some (q @ [window_request h t w ht m tm c a b ar u rs])\<rparr>)"
  by (simp add: show_webengine_window_def queue_put_def window_request_def)

lemma show_webengine_window_queue:
  "friday_ui_queue st = Some q \<Longrightarrow>
   friday_ui_queue (snd (show_webengine_window env st h t w ht m tm c a b ar u rs wt))
     = Some (q @ [window_request h t w ht m tm c a b ar u rs])"
  by (auto simp: show_webengine_window_def queue_put_def window_request_def Let_def
        split: sum.splits prod.splits exn.splits option.splits
        dest!: reply_queue_get_queue)

lemma show_webengine_window_sync:
  "friday_ui_queue st = Some q \<Longrightarrow> truthy wt \<Longrightarrow> max_wait_time env tm = Inr bound \<Longrightarrow>
   show_webengine_window env st h t w ht m tm c a b ar u rs wt =
     (case reply_queue_get env
             (st\<lparr>friday_ui_queue := Some (q @ [window_request h t w ht m tm c a b ar u rs])\<rparr>)
             (window_request h t w ht m tm c a b ar u rs) bound of
        (Inr response, st2) \<Rightarrow> (response, st2)
      | (Inl Queue_Empty, st2) \<Rightarrow> (ui_timeout env bound, st2)
      | (Inl e, st2) \<Rightarrow> (ui_error e, st2))"
  by (simp add: show_webengine_window_def queue_put_def window_request_def Let_def)

subsection \<open>The checks of the window parameters\<close>

lemma first_error_Cons [simp]:
  "first_error (c # cs) = (if c \<noteq> None then c else first_error cs)"
  by (cases c) (simp_all add: first_error_def)

lemma first_error_Nil [simp]: "first_error [] = None"
  by (simp add: first_error_def)

lemma first_error_mem: "first_error cs = Some e \<Longrightarrow> Some e \<in> set cs"
  by (induction cs) (auto split: if_splits)

lemma first_error_None: "first_error cs = None \<longleftrightarrow> (\<forall>c \<in> set cs. c = None)"
proof (induction cs)
  case Nil
  then show ?case by simp
next
  case (Cons a cs)
  then show ?case by (cases a) simp_all
qed

lemma if_Some_None [simp]:
  "((if c then Some x else None) = None) = (\<not> c)"
  "(Some y = (if c then Some x else None)) = (c \<and> y = x)"
  by auto

lemma boolean_error_Some:
  "boolean_error n v = Some (m, w) \<Longrightarrow> m \<noteq> [] \<and> hd m \<noteq> CHR ''I'' \<and> \<not> w"
  by (auto simp: boolean_error_def split: if_splits)

lemma boolean_error_None [simp]: "boolean_error n v = None \<longleftrightarrow> isinstance_bool v"
  by (auto simp: boolean_error_def)

lemma window_params_error_nonempty:
  "window_params_error env p = Some (m, w) \<Longrightarrow> m \<noteq> [] \<and> hd m \<noteq> CHR ''I''"
  unfolding window_params_error_def Let_def
  by (drule first_error_mem) (auto dest: boolean_error_Some [OF sym])

lemma window_params_error_content:
  "truthy (py_get p ''html'' PNone) = truthy (py_get p ''url'' PNone)
     \<Longrightarrow> \<exists>m. m \<noteq> [] \<and> window_params_error env p = Some (m, True)"
  unfolding window_params_error_def Let_def
  by (cases "truthy (py_get p ''url'' PNone)") (simp_all del: first_error_Cons add: first_error_Cons [of _ "_ # _"])

lemma window_params_error_NoneD:
  assumes "window_params_error env p = None"
  shows "truthy (py_get p ''html'' PNone) \<noteq> truthy (py_get p ''url'' PNone)"
    and "isinstance_bool (py_get p ''wait_for_response'' (PBool True))"
    and "\<not> not_nonnegative_int (py_get p ''timeout'' (PInt 0))"
    and "isinstance_bool (py_get p ''modal'' (PBool True))"
    and "\<not> not_positive_int (py_get p ''width'' (PInt 600))"
    and "\<not> not_positive_int (py_get p ''height'' (PInt 400))"
  using assms unfolding window_params_error_def Let_def first_error_None
  by auto

lemma show_html_window_error:
  "window_params_error env p = Some (m, w) \<Longrightarrow>
   show_html_window env st p = (create_error_response env m w, st)"
  by (simp add: show_html_window_def)

lemma show_html_window_ok:
  "window_params_error env p = None \<Longrightarrow>
   show_html_window env st p =
     (json_response env (fst (params_window env st p)), snd (params_window env st p))"
  by (simp add: show_html_window_def params_window_def split_beta)

lemma params_window_None:
  "friday_ui_queue st = None \<Longrightarrow> params_window env st p = (no_ui_queue_qt, st)"
  by (simp add: params_window_def show_webengine_window_None)

lemma params_window_queue:
  "friday_ui_queue st = Some q \<Longrightarrow>
   friday_ui_queue (snd (params_window env st p)) = Some (q @ [params_request p])"
  by (simp add: params_window_def params_request_def show_webengine_window_queue)

lemma params_window_async:
  "friday_ui_queue st = Some q \<Longrightarrow> \<not> truthy (py_get p ''wait_for_response'' (PBool True)) \<Longrightarrow>
   params_window env st p = (async_success, st\<lparr>friday_ui_queue := Some (q @ [params_request p])\<rparr>)"
  by (simp add: params_window_def params_request_def show_webengine_window_async)

lemma frame_window: "frame st (show_html_window env st p)"
proof (cases "window_params_error env p")
  case None
  show ?thesis
  proof (cases "friday_ui_queue st")
    case None
    with \<open>window_params_error env p = None\<close> show ?thesis
      by (simp add: frame_def show_html_window_ok params_window_None)
  next
    case (Some q)
    with \<open>window_params_error env p = None\<close> show ?thesis
      by (simp add: frame_def show_html_window_ok params_window_queue)
  qed
next
  case (Some e)
  then show ?thesis
    by (cases e) (auto simp: show_html_window_error dest: window_params_error_nonempty)
qed

lemma frame_collect: "frame st (collect_api_key_from_user env st p)"
  unfolding collect_api_key_from_user_def Let_def
  by (auto split: sum.splits simp: frame_window)

lemma frame_dispatch: "frame st (dispatch_operation env st vp)"
  unfolding dispatch_operation_def Let_def
  by (simp add: frame_test_queue frame_toast frame_collect frame_window frame_send frame_check
        frame_show frame_hide frame_history frame_clear)
     (simp add: frame_def readme_response_def)

lemma frame_validate_and_dispatch: "frame st (validate_and_dispatch env st d)"
  unfolding validate_and_dispatch_def
  by (auto split: prod.splits option.splits simp: frame_dispatch dest: validate_parameters_error)

lemma handle_user_try_cases:
  "handle_user_try env st x = Inr res \<Longrightarrow>
     res = (readme_response env, st) \<or> res = (invalid_token_response env, st) \<or>
     res = (create_error_response env
              ''Invalid input format. Expected dictionary with tool parameters.'' True, st) \<or>
     (\<exists>d. res = validate_and_dispatch env st d)"
  unfolding handle_user_try_def Let_def
  by (auto split: sum.splits pyval.splits bool.splits if_splits)

lemma handle_user_try_frame:
  assumes "handle_user_try env st x = Inr res"
  shows "(isError (fst res) \<longrightarrow> content_text (fst res) \<noteq> []) \<and>
         (friday_ui_queue (snd res) = friday_ui_queue st \<or>
          (\<exists>q r. friday_ui_queue st = Some q \<and> friday_ui_queue (snd res) = Some (q @ [r]))) \<and>
         (friday_ui_queue st = None \<longrightarrow> waited (snd res) = waited st)"
proof -
  from handle_user_try_cases [OF assms]
  consider "res = (readme_response env, st)" | "res = (invalid_token_response env, st)"
    | "res = (create_error_response env
               ''Invalid input format. Expected dictionary with tool parameters.'' True, st)"
    | d where "res = validate_and_dispatch env st d"
    by blast
  then show ?thesis
  proof cases
    case 1
    then show ?thesis by (simp add: readme_response_def)
  next
    case 2
    then show ?thesis by (simp add: invalid_token_response_def)
  next
    case 3
    then show ?thesis by simp
  next
    case 4
    with frame_validate_and_dispatch [of st env d] show ?thesis
      by (simp add: frame_def)
  qed
qed

lemma handle_user_frame:
  "(isError (fst (handle_user env st x)) \<longrightarrow> content_text (fst (handle_user env st x)) \<noteq> []) \<and>
   (friday_ui_queue (snd (handle_user env st x)) = friday_ui_queue st \<or>
    (\<exists>q r. friday_ui_queue st = Some q \<and>
           friday_ui_queue (snd (handle_user env st x)) = Some (q @ [r]))) \<and>
   (friday_ui_queue st = None \<longrightarrow> waited (snd (handle_user env st x)) = waited st)"
proof (cases "handle_user_try env st x")
  case (Inl e)
  then show ?thesis by (simp add: handle_user_def)
next
  case (Inr res)
  with handle_user_try_frame [OF Inr] show ?thesis by (simp add: handle_user_def)
qed

subsection \<open>The handler and its gate\<close>

lemma handle_user_readme:
  "pop_handler_info x = Inr popped \<Longrightarrow> collapse_input popped = PDict d \<Longrightarrow>
   py_get d ''operation'' PNone = PStr ''readme'' \<Longrightarrow>
   handle_user env st x = (readme_response env, st)"
  by (simp add: handle_user_def handle_user_try_def)

lemma handle_user_gate:
  "pop_handler_info x = Inr popped \<Longrightarrow> collapse_input popped = PDict d \<Longrightarrow>
   py_get d ''operation'' PNone \<noteq> PStr ''readme'' \<Longrightarrow>
   handle_user env st x =
     (case token_rejected env (py_get d ''tool_unlock_token'' PNone) of
        Inl e \<Rightarrow> (create_error_response env
                   (''Error in user interaction operation: '' @ str_exn e) True, st)
      | Inr True \<Rightarrow> (invalid_token_response env, st)
      | Inr False \<Rightarrow> validate_and_dispatch env st d)"
  by (simp add: handle_user_def handle_user_try_def split: sum.splits bool.splits)

lemma split_once_first:
  "CHR ''-'' \<notin> set a \<Longrightarrow> split_once (a @ ''-'' @ b) = [a, b]"
proof -
  assume h: "CHR ''-'' \<notin> set a"
  then have "takeWhile (\<lambda>c. c \<noteq> CHR ''-'') (a @ CHR ''-'' # b) = a"
    by (induction a) auto
  moreover from h have "dropWhile (\<lambda>c. c \<noteq> CHR ''-'') (a @ CHR ''-'' # b) = CHR ''-'' # b"
    by (induction a) auto
  ultimately show ?thesis
    by (simp add: split_once_def)
qed

lemma split_once_join:
  "split_once s = [a, b] \<Longrightarrow> s = a @ ''-'' @ b \<and> CHR ''-'' \<notin> set a"
proof -
  assume h: "split_once s = [a, b]"
  then have mem: "CHR ''-'' \<in> set s"
    by (auto simp: split_once_def split: if_splits)
  with h have a: "a = takeWhile (\<lambda>c. c \<noteq> CHR ''-'') s"
    and b: "b = tl (dropWhile (\<lambda>c. c \<noteq> CHR ''-'') s)"
    by (auto simp: split_once_def)
  from mem have "dropWhile (\<lambda>c. c \<noteq> CHR ''-'') s \<noteq> []"
    by (simp add: dropWhile_eq_Nil_conv)
  moreover have "hd (dropWhile (\<lambda>c. c \<noteq> CHR ''-'') s) = CHR ''-''"
    using mem hd_dropWhile [of "\<lambda>c. c \<noteq> CHR ''-''" s] calculation by blast
  ultimately have "dropWhile (\<lambda>c. c \<noteq> CHR ''-'') s = CHR ''-'' # b"
    using b by (metis list.collapse)
  then have "s = a @ CHR ''-'' # b"
    using a takeWhile_dropWhile_id [of "\<lambda>c. c \<noteq> CHR ''-''" s] by simp
  moreover have "CHR ''-'' \<notin> set a"
    using a by (auto dest: set_takeWhileD)
  ultimately show ?thesis by simp
qed

lemma is_inter_tool_call_PStr:
  "is_inter_tool_call env (PStr s) =
     Inr (startswith_dash s \<and> (\<exists>a. split_once (tl s) = [a, TOOL_UNLOCK_TOKEN env]))"
proof (cases "startswith_dash s")
  case False
  then show ?thesis by (simp add: is_inter_tool_call_def)
next
  case True
  then have ne: "s \<noteq> []" by (auto simp: startswith_dash_def)
  show ?thesis
  proof (cases "CHR ''-'' \<in> set (tl s)")
    case True
    with ne \<open>startswith_dash s\<close> show ?thesis
      by (simp add: is_inter_tool_call_def split_once_def)
  next
    case False
    with ne \<open>startswith_dash s\<close> show ?thesis
      by (simp add: is_inter_tool_call_def split_once_def)
  qed
qed

lemma startswith_dash_Cons [simp]: "startswith_dash (c # cs) = (c = CHR ''-'')"
  by (simp add: startswith_dash_def)

lemma token_rejected_delegation:
  "CHR ''-'' \<notin> set a \<Longrightarrow>
   token_rejected env (PStr (''-'' @ a @ ''-'' @ b)) =
     Inr (b \<noteq> TOOL_UNLOCK_TOKEN env \<and> ''-'' @ a @ ''-'' @ b \<noteq> TOOL_UNLOCK_TOKEN env)"
  using split_once_first [of a b]
  by (auto simp: token_rejected_def is_inter_tool_call_PStr)


lemma token_rejected_unauthorized:
  assumes "tok \<noteq> PStr (TOOL_UNLOCK_TOKEN env)"
    and "\<And>a. CHR ''-'' \<notin> set a \<Longrightarrow> tok \<noteq> PStr (''-'' @ a @ ''-'' @ TOOL_UNLOCK_TOKEN env)"
  shows "token_rejected env tok \<noteq> Inr False"
proof (cases tok)
  case (PStr s)
  have "\<not> (startswith_dash s \<and> (\<exists>a. split_once (tl s) = [a, TOOL_UNLOCK_TOKEN env]))"
  proof
    assume h: "startswith_dash s \<and> (\<exists>a. split_once (tl s) = [a, TOOL_UNLOCK_TOKEN env])"
    then obtain a where a: "split_once (tl s) = [a, TOOL_UNLOCK_TOKEN env]" by blast
    from h have "s = ''-'' @ tl s"
      by (cases s) (auto simp: startswith_dash_def)
    with split_once_join [OF a] have "s = ''-'' @ a @ ''-'' @ TOOL_UNLOCK_TOKEN env"
      and "CHR ''-'' \<notin> set a"
      by simp_all
    with assms(2) [of a] PStr show False by simp
  qed
  with PStr assms(1) show ?thesis
    by (simp add: token_rejected_def is_inter_tool_call_PStr)
qed (auto simp: token_rejected_def is_inter_tool_call_def assms(1) split: if_splits)

lemma token_rejected_valid:
  assumes "valid_token env a tok"
  shows "token_rejected env tok = Inr False"
proof (cases "tok = PStr (TOOL_UNLOCK_TOKEN env)")
  case True
  then show ?thesis
    by (simp add: token_rejected_def is_inter_tool_call_PStr)
next
  case False
  with assms have a: "CHR ''-'' \<notin> set a"
    and t: "tok = PStr (''-'' @ a @ ''-'' @ TOOL_UNLOCK_TOKEN env)"
    by (auto simp: valid_token_def)
  have "token_rejected env (PStr (''-'' @ a @ ''-'' @ TOOL_UNLOCK_TOKEN env)) = Inr False"
    by (subst token_rejected_delegation [OF a]) simp
  with t show ?thesis by simp
qed
subsection \<open>What validation hands to the dispatch\<close>

lemma validate_and_dispatch_error:
  "validate_parameters env d = (Some m, vp) \<Longrightarrow>
   validate_and_dispatch env st d = (create_error_response env m True, st)"
  by (auto simp: validate_and_dispatch_def dest: validate_parameters_error)

lemma validate_and_dispatch_ok:
  "validate_parameters env d = (None, vp) \<Longrightarrow>
   validate_and_dispatch env st d = dispatch_operation env st vp"
  by (simp add: validate_and_dispatch_def)

lemma validate_parameters_loop:
  "validate_parameters env d = (None, vp) \<Longrightarrow>
   \<exists>req. validate_loop env req d properties [] = (None, vp)"
  by (auto simp: validate_parameters_def Let_def split: if_splits)

lemma validated_lookup:
  assumes "validate_parameters env d = (None, vp)"
    and "List.find (\<lambda>p. pname p = k) properties = Some p"
  shows "map_of vp k = (case map_of d k of Some v \<Rightarrow> Some v | None \<Rightarrow> pdefault p)"
proof -
  from assms(2) have mem: "p \<in> set properties" and k: "pname p = k"
    by (auto simp: find_Some_iff)
  from validate_parameters_loop [OF assms(1)] obtain req
    where "validate_loop env req d properties [] = (None, vp)" by blast
  from validate_loop_lookup [OF this distinct_properties mem] k show ?thesis
    by (auto split: option.splits)
qed

lemma validated_get:
  assumes "validate_parameters env d = (None, vp)"
    and "List.find (\<lambda>p. pname p = k) properties = Some p"
    and "pdefault p = None \<or> pdefault p = Some dflt"
  shows "py_get vp k dflt = py_get d k dflt"
  using validated_lookup [OF assms(1,2)] assms(3)
  by (auto simp: py_get_def split: option.splits)

lemma find_properties:
  "List.find (\<lambda>p. pname p = ''operation'') properties = Some (hd properties)"
  "\<exists>p. List.find (\<lambda>p. pname p = ''html'') properties = Some p \<and> pdefault p = None"
  "\<exists>p. List.find (\<lambda>p. pname p = ''url'') properties = Some p \<and> pdefault p = None"
  "\<exists>p. List.find (\<lambda>p. pname p = ''modal'') properties = Some p \<and> pdefault p = Some (PBool True)"
  "\<exists>p. List.find (\<lambda>p. pname p = ''wait_for_response'') properties = Some p
        \<and> pdefault p = Some (PBool True)"
  "\<exists>p. List.find (\<lambda>p. pname p = ''timeout'') properties = Some p \<and> pdefault p = Some (PInt 0)"
  by (simp_all add: properties_def)

lemma validated_fields:
  assumes "validate_parameters env d = (None, vp)"
  shows "py_get vp ''operation'' PNone = py_get d ''operation'' PNone"
    and "py_get vp ''html'' PNone = py_get d ''html'' PNone"
    and "py_get vp ''url'' PNone = py_get d ''url'' PNone"
    and "py_get vp ''modal'' (PBool True) = py_get d ''modal'' (PBool True)"
    and "py_get vp ''wait_for_response'' (PBool True) = py_get d ''wait_for_response'' (PBool True)"
    and "py_get vp ''timeout'' (PInt 0) = py_get d ''timeout'' (PInt 0)"
    and "has_key vp ''modal''"
proof -
  show "py_get vp ''operation'' PNone = py_get d ''operation'' PNone"
    by (rule validated_get [OF assms find_properties(1)]) (simp add: properties_def)
  from find_properties(2) show "py_get vp ''html'' PNone = py_get d ''html'' PNone"
    by (auto intro: validated_get [OF assms])
  from find_properties(3) show "py_get vp ''url'' PNone = py_get d ''url'' PNone"
    by (auto intro: validated_get [OF assms])
  from find_properties(4) show "py_get vp ''modal'' (PBool True) = py_get d ''modal'' (PBool True)"
    by (auto intro: validated_get [OF assms])
  from find_properties(5)
  show "py_get vp ''wait_for_response'' (PBool True) = py_get d ''wait_for_response'' (PBool True)"
    by (auto intro: validated_get [OF assms])
  from find_properties(6) show "py_get vp ''timeout'' (PInt 0) = py_get d ''timeout'' (PInt 0)"
    by (auto intro: validated_get [OF assms])
  from find_properties(4) obtain p where
    "List.find (\<lambda>p. pname p = ''modal'') properties = Some p" "pdefault p = Some (PBool True)"
    by blast
  from validated_lookup [OF assms this(1)] this(2) have "map_of vp ''modal'' \<noteq> None"
    by (auto split: option.splits)
  then show "has_key vp ''modal''"
    by (auto simp: has_key_def dest: map_of_SomeD intro: rev_image_eqI)
qed

lemma dispatch_show_popup:
  "py_get vp ''operation'' PNone = PStr ''show_popup'' \<Longrightarrow>
   dispatch_operation env st vp = show_html_window env st (dict_set vp ''modal'' (PBool False))"
  by (simp add: dispatch_operation_def)

lemma dispatch_show_dialog:
  "py_get vp ''operation'' PNone = PStr ''show_dialog'' \<Longrightarrow> has_key vp ''modal'' \<Longrightarrow>
   dispatch_operation env st vp = show_html_window env st vp"
  by (simp add: dispatch_operation_def)

lemma window_params_get:
  "k \<noteq> ''modal'' \<Longrightarrow> py_get (window_params vp) k dflt = py_get vp k dflt"
  by (simp add: window_params_def py_get_dict_set)

lemma handle_user_window_cases:
  assumes eff: "pop_handler_info x = Inr popped" "collapse_input popped = PDict d"
    and op: "py_get d ''operation'' PNone = PStr ''show_popup'' \<or>
             py_get d ''operation'' PNone = PStr ''show_dialog''"
  obtains
    (error) msg w where "msg \<noteq> []"
      "truthy (py_get d ''html'' PNone) = truthy (py_get d ''url'' PNone) \<longrightarrow> w"
      "handle_user env st x = (create_error_response env msg w, st)"
  | (window) vp where "validate_parameters env d = (None, vp)"
      "window_params_error env (window_params vp) = None"
      "handle_user env st x =
         (json_response env (fst (params_window env st (window_params vp))),
          snd (params_window env st (window_params vp)))"
proof -
  from op have nr: "py_get d ''operation'' PNone \<noteq> PStr ''readme''" by auto
  note gate = handle_user_gate [OF eff nr, of env st]
  show ?thesis
  proof (cases "token_rejected env (py_get d ''tool_unlock_token'' PNone)")
    case (Inl e)
    with gate show ?thesis by (intro error [of _ True]) simp_all
  next
    case (Inr r)
    show ?thesis
    proof (cases r)
      case True
      with Inr gate show ?thesis
        by (intro error [of _ True]) (simp_all add: invalid_token_response_def)
    next
      case False
      with Inr gate have hu: "handle_user env st x = validate_and_dispatch env st d" by simp
      obtain eo vp where v: "validate_parameters env d = (eo, vp)" by force
      show ?thesis
      proof (cases eo)
        case (Some m)
        with v validate_parameters_error [of env d m vp] hu show ?thesis
          by (intro error [of m True]) (simp_all add: validate_and_dispatch_error)
      next
        case None
        with v have ok: "validate_parameters env d = (None, vp)" by simp
        note f = validated_fields [OF ok]
        from op f(1) f(7) have disp:
          "dispatch_operation env st vp = show_html_window env st (window_params vp)"
          by (auto simp: window_params_def dispatch_show_popup dispatch_show_dialog)
        with hu ok have hu': "handle_user env st x = show_html_window env st (window_params vp)"
          by (simp add: validate_and_dispatch_ok)
        show ?thesis
        proof (cases "window_params_error env (window_params vp)")
          case None
          with hu' ok show ?thesis
            by (intro window [of vp]) (simp_all add: show_html_window_ok)
        next
          case (Some e)
          obtain m w where e: "e = (m, w)" by force
          have "w" if "truthy (py_get d ''html'' PNone) = truthy (py_get d ''url'' PNone)"
            using window_params_error_content [of "window_params vp" env] that Some e f(2,3)
            by (auto simp: window_params_get)
          with Some e hu' window_params_error_nonempty [of env "window_params vp" m w]
          show ?thesis
            by (intro error [of m w]) (simp_all add: show_html_window_error)
        qed
      qed
    qed
  qed
qed

lemma request_field_params_request:
  "request_field (params_request p) ''modal'' = Some (py_get p ''modal'' (PBool True))"
  "req_operation (params_request p) = ''show_popup''"
  "request_field (params_request p) ''html'' = Some (py_get p ''html'' PNone)"
  "request_field (params_request p) ''url'' = Some (py_get p ''url'' PNone)"
  "request_field (params_request p) ''timeout'' = Some (py_get p ''timeout'' (PInt 0))"
  by (simp_all add: request_field_def params_request_def window_request_def)

lemma window_params_modal:
  "py_get (window_params vp) ''modal'' (PBool True) =
     (if py_get vp ''operation'' PNone = PStr ''show_popup'' then PBool False
      else py_get vp ''modal'' (PBool True))"
  by (simp add: window_params_def py_get_dict_set)

lemma collect_params_ok:
  "html \<noteq> [] \<Longrightarrow>
   window_params_error env
     [(''html'', PStr html), (''title'', PStr t), (''width'', PInt 550), (''height'', PInt 450),
      (''modal'', PBool True), (''timeout'', PInt 300), (''center_on_screen'', PBool True),
      (''always_on_top'', PBool True), (''bring_to_front'', PBool True),
      (''auto_resize'', PBool False), (''operation'', PStr ''show_dialog'')] = None"
  by (simp add: window_params_error_def py_get_def not_positive_int_def not_nonnegative_int_def)

lemma max_wait_time_int:
  "isinstance_int v \<Longrightarrow>
   max_wait_time env v = Inr (PInt (if 0 < int_of v then int_of v + 5 else 65))"
  by (cases v) (simp_all add: max_wait_time_def int_of_def)

lemma params_window_sync:
  assumes "friday_ui_queue st = Some q"
    and "py_get p ''wait_for_response'' (PBool True) = PBool True"
    and "isinstance_int (py_get p ''timeout'' (PInt 0))"
    and "bound = (if 0 < int_of (py_get p ''timeout'' (PInt 0))
                  then int_of (py_get p ''timeout'' (PInt 0)) + 5 else 65)"
  shows "params_window env st p =
     (case reply_queue_get env (st\<lparr>friday_ui_queue := Some (q @ [params_request p])\<rparr>)
             (params_request p) (PInt bound) of
        (Inr response, st2) \<Rightarrow> (response, st2)
      | (Inl Queue_Empty, st2) \<Rightarrow> (ui_timeout env (PInt bound), st2)
      | (Inl e, st2) \<Rightarrow> (ui_error e, st2))"
proof -
  have m: "max_wait_time env (py_get p ''timeout'' (PInt 0)) = Inr (PInt bound)"
    unfolding assms(4) by (rule max_wait_time_int [OF assms(3)])
  have w: "truthy (PBool True)" by simp
  show ?thesis
    unfolding params_window_def params_request_def assms(2)
    by (rule show_webengine_window_sync [OF assms(1) w m])
qed

lemma params_window_waits:
  assumes "friday_ui_queue st = Some q"
    and "py_get p ''wait_for_response'' (PBool True) = PBool True"
    and "isinstance_int (py_get p ''timeout'' (PInt 0))"
    and "bound = (if 0 < int_of (py_get p ''timeout'' (PInt 0))
                  then int_of (py_get p ''timeout'' (PInt 0)) + 5 else 65)"
    and "bound < FLOAT_LIMIT" and "of_int bound \<le> TIMEOUT_MAX env"
  shows "params_window env st p =
     (case consumer env (params_request p) of
        None \<Rightarrow> ui_timeout env (PInt bound)
      | Some (d, v) \<Rightarrow> if d \<le> of_int bound then v else ui_timeout env (PInt bound),
      st\<lparr>friday_ui_queue := Some (q @ [params_request p]),
         waited := waited st @ [of_int bound]\<rparr>)"
proof -
  from assms(4) have "0 \<le> bound" by (simp split: if_splits)
  from reply_queue_get_PInt [OF this assms(5,6)] show ?thesis
    unfolding params_window_sync [OF assms(1-4)]
    by (simp split: option.splits)
qed

lemma params_window_overflow:
  assumes "friday_ui_queue st = Some q"
    and "py_get p ''wait_for_response'' (PBool True) = PBool True"
    and "isinstance_int (py_get p ''timeout'' (PInt 0))"
    and "bound = (if 0 < int_of (py_get p ''timeout'' (PInt 0))
                  then int_of (py_get p ''timeout'' (PInt 0)) + 5 else 65)"
    and "\<not> reply_ready env (params_request p)"
    and "FLOAT_LIMIT \<le> bound \<or> TIMEOUT_MAX env < of_int bound"
  shows "\<exists>m. params_window env st p =
     (ui_error (OverflowError m), st\<lparr>friday_ui_queue := Some (q @ [params_request p])\<rparr>)"
proof -
  from assms(4) have "0 \<le> bound" by (simp split: if_splits)
  from reply_queue_get_overflow [OF this assms(5,6)] obtain m where
    "reply_queue_get env (st\<lparr>friday_ui_queue := Some (q @ [params_request p])\<rparr>)
       (params_request p) (PInt bound)
     = (Inl (OverflowError m), st\<lparr>friday_ui_queue := Some (q @ [params_request p])\<rparr>)"
    by blast
  then show ?thesis
    unfolding params_window_sync [OF assms(1-4)] by auto
qed

lemma no_reply_case:
  "no_reply_within env b \<Longrightarrow>
   (case consumer env r of None \<Rightarrow> X | Some (d, v) \<Rightarrow> if d \<le> b then Y v else X) = X"
  by (auto simp: no_reply_within_def split: option.splits dest: spec [of _ r])

lemma no_reply_case2:
  "no_reply_within env b \<Longrightarrow>
   (case consumer env r of None \<Rightarrow> Inl Queue_Empty
    | Some (d, v) \<Rightarrow> if d \<le> b then Inr v else Inl Queue_Empty) = Inl Queue_Empty"
  by (auto simp: no_reply_within_def split: option.splits dest: spec [of _ r])

lemma wrong_type_detected: "wrong_type t v \<Longrightarrow> type_error n t v \<noteq> None"
  by (cases v) (auto simp: type_error_def)

lemma outside_enum_detected:
  "outside_enum e v \<Longrightarrow> enum_error env n e v \<noteq> None"
  by (cases v) (auto simp: outside_enum_def enum_error_def not_in_def split: option.splits)

lemma violates_schema_detected:
  assumes "violates_schema d" and "py_get d ''operation'' PNone \<noteq> PStr ''readme''"
  shows "\<exists>m. fst (validate_parameters env d) = Some m"
proof (cases "filter (\<lambda>k. k \<notin> set (map pname properties)) (map fst d) = []")
  case False
  then show ?thesis
    by (simp add: validate_parameters_def Let_def)
next
  case nu: True
  show ?thesis
  proof (cases "filter (\<lambda>k. k \<notin> set (map fst d)) required_parameters = []")
    case False
    with nu assms(2) show ?thesis
      by (simp add: validate_parameters_def Let_def)
  next
    case nm: True
    from nu have "\<not> list_ex (\<lambda>k. k \<notin> set (map pname properties)) (map fst d)"
      by (simp add: list_ex_iff filter_empty_conv)
    moreover from nm have "\<not> list_ex (\<lambda>k. k \<notin> set (map fst d)) required_parameters"
      by (simp add: list_ex_iff filter_empty_conv)
    ultimately obtain p v where p: "p \<in> set properties" "map_of d (pname p) = Some v"
      "wrong_type (ptype p) v \<or> outside_enum (penum p) v"
      using assms(1) by (auto simp: violates_schema_def list_ex_iff split: option.splits)
    from p(3) have "type_error (pname p) (ptype p) v \<noteq> None \<or>
                    enum_error env (pname p) (penum p) v \<noteq> None"
      using wrong_type_detected outside_enum_detected by blast
    from validate_loop_detects [OF p(1,2) this]
    have "fst (validate_loop env required_parameters d properties []) \<noteq> None" .
    with nu nm assms(2) show ?thesis
      by (simp add: validate_parameters_def Let_def)
  qed
qed

subsection \<open>Well-formed window calls\<close>

lemma type_error_complete: "\<not> wrong_type t v \<Longrightarrow> type_error n t v = None"
  by (cases v) (auto simp: type_error_def)

lemma enum_error_complete: "\<not> outside_enum e v \<Longrightarrow> enum_error env n e v = None"
  by (auto simp: outside_enum_def enum_error_def not_in_def split: option.splits pyval.splits)

lemma validate_loop_complete:
  assumes "\<forall>p \<in> set ps. case map_of inp (pname p) of
                            None \<Rightarrow> pname p \<notin> set req
                          | Some v \<Rightarrow> \<not> wrong_type (ptype p) v \<and> \<not> outside_enum (penum p) v"
  shows "fst (validate_loop env req inp ps acc) = None"
  using assms
proof (induction ps arbitrary: acc)
  case Nil
  then show ?case by simp
next
  case (Cons p ps)
  then show ?case
    by (auto simp: type_error_complete enum_error_complete split: option.splits)
qed

lemma violates_schemaD:
  assumes "\<not> violates_schema d"
  shows "\<not> list_ex (\<lambda>k. k \<notin> set (map pname properties)) (map fst d)"
    and "\<not> list_ex (\<lambda>k. k \<notin> set (map fst d)) required_parameters"
    and "\<not> list_ex (\<lambda>p. case map_of d (pname p) of
                      None \<Rightarrow> False
                    | Some v \<Rightarrow> wrong_type (ptype p) v \<or> outside_enum (penum p) v) properties"
  using assms unfolding violates_schema_def by blast+

lemma schema_typed:
  assumes "\<not> violates_schema d" and "p \<in> set properties" and "map_of d (pname p) = Some v"
  shows "\<not> wrong_type (ptype p) v" and "\<not> outside_enum (penum p) v"
proof -
  have "\<not> (wrong_type (ptype p) v \<or> outside_enum (penum p) v)"
  proof
    assume "wrong_type (ptype p) v \<or> outside_enum (penum p) v"
    with assms(2,3) have "list_ex (\<lambda>p. case map_of d (pname p) of
                      None \<Rightarrow> False
                    | Some v \<Rightarrow> wrong_type (ptype p) v \<or> outside_enum (penum p) v) properties"
      unfolding list_ex_iff by (intro bexI [of _ p]) simp_all
    with violates_schemaD(3) [OF assms(1)] show False by simp
  qed
  then show "\<not> wrong_type (ptype p) v" and "\<not> outside_enum (penum p) v"
    by simp_all
qed

lemma validate_parameters_complete:
  assumes "\<not> violates_schema d" and "py_get d ''operation'' PNone \<noteq> PStr ''readme''"
  shows "\<exists>vp. validate_parameters env d = (None, vp)"
proof -
  from violates_schemaD(1) [OF assms(1)]
  have nu: "filter (\<lambda>k. k \<notin> set (map pname properties)) (map fst d) = []"
    by (simp add: list_ex_iff filter_empty_conv)
  from violates_schemaD(2) [OF assms(1)]
  have nm: "filter (\<lambda>k. k \<notin> set (map fst d)) required_parameters = []"
    by (simp add: list_ex_iff filter_empty_conv)
  have "\<forall>p \<in> set properties. case map_of d (pname p) of
                 None \<Rightarrow> pname p \<notin> set required_parameters
               | Some v \<Rightarrow> \<not> wrong_type (ptype p) v \<and> \<not> outside_enum (penum p) v"
  proof
    fix p assume p: "p \<in> set properties"
    show "case map_of d (pname p) of
                 None \<Rightarrow> pname p \<notin> set required_parameters
               | Some v \<Rightarrow> \<not> wrong_type (ptype p) v \<and> \<not> outside_enum (penum p) v"
    proof (cases "map_of d (pname p)")
      case None
      then have "pname p \<notin> set (map fst d)"
        by (simp add: map_of_eq_None_iff)
      with nm have "pname p \<notin> set required_parameters"
        by (auto simp: filter_empty_conv)
      with None show ?thesis by simp
    next
      case (Some v)
      with schema_typed [OF assms(1) p Some] show ?thesis by simp
    qed
  qed
  from validate_loop_complete [OF this, of env "[]"]
  have "fst (validate_loop env required_parameters d properties []) = None" .
  with nu nm assms(2) have "fst (validate_parameters env d) = None"
    by (simp add: validate_parameters_def Let_def)
  then show ?thesis
    by (cases "validate_parameters env d") auto
qed

lemma isinstance_str_wrong_type: "isinstance_str v \<longleftrightarrow> \<not> wrong_type ''string'' v"
  by (cases v) simp_all

lemma isinstance_int_wrong_type: "isinstance_int v \<longleftrightarrow> \<not> wrong_type ''integer'' v"
  by (cases v) simp_all

lemma isinstance_bool_wrong_type: "isinstance_bool v \<longleftrightarrow> \<not> wrong_type ''boolean'' v"
  by (cases v) simp_all

lemma not_positive_int_of:
  "isinstance_int v \<Longrightarrow> not_positive_int v \<longleftrightarrow> \<not> 0 < int_of v"
  by (cases v) (auto simp: not_positive_int_def int_of_def)

lemma not_nonnegative_int_of:
  "isinstance_int v \<Longrightarrow> not_nonnegative_int v \<longleftrightarrow> \<not> 0 \<le> int_of v"
  by (cases v) (auto simp: not_nonnegative_int_def int_of_def)

lemma find_window_properties:
  "List.find (\<lambda>p. pname p = ''html'') properties =
     Some \<lparr>pname = ''html'', ptype = ''string'', penum = None, pdefault = None\<rparr>"
  "List.find (\<lambda>p. pname p = ''url'') properties =
     Some \<lparr>pname = ''url'', ptype = ''string'', penum = None, pdefault = None\<rparr>"
  "List.find (\<lambda>p. pname p = ''title'') properties =
     Some \<lparr>pname = ''title'', ptype = ''string'', penum = None,
           pdefault = Some (PStr ''User Interface'')\<rparr>"
  "List.find (\<lambda>p. pname p = ''width'') properties =
     Some \<lparr>pname = ''width'', ptype = ''integer'', penum = None, pdefault = Some (PInt 600)\<rparr>"
  "List.find (\<lambda>p. pname p = ''height'') properties =
     Some \<lparr>pname = ''height'', ptype = ''integer'', penum = None, pdefault = Some (PInt 400)\<rparr>"
  "List.find (\<lambda>p. pname p = ''modal'') properties =
     Some \<lparr>pname = ''modal'', ptype = ''boolean'', penum = None, pdefault = Some (PBool True)\<rparr>"
  "List.find (\<lambda>p. pname p = ''timeout'') properties =
     Some \<lparr>pname = ''timeout'', ptype = ''integer'', penum = None, pdefault = Some (PInt 0)\<rparr>"
  "List.find (\<lambda>p. pname p = ''center_on_screen'') properties =
     Some \<lparr>pname = ''center_on_screen'', ptype = ''boolean'', penum = None,
           pdefault = Some (PBool True)\<rparr>"
  "List.find (\<lambda>p. pname p = ''always_on_top'') properties =
     Some \<lparr>pname = ''always_on_top'', ptype = ''boolean'', penum = None,
           pdefault = Some (PBool True)\<rparr>"
  "List.find (\<lambda>p. pname p = ''bring_to_front'') properties =
     Some \<lparr>pname = ''bring_to_front'', ptype = ''boolean'', penum = None,
           pdefault = Some (PBool True)\<rparr>"
  "List.find (\<lambda>p. pname p = ''auto_resize'') properties =
     Some \<lparr>pname = ''auto_resize'', ptype = ''boolean'', penum = None,
           pdefault = Some (PBool False)\<rparr>"
  "List.find (\<lambda>p. pname p = ''resizable'') properties =
     Some \<lparr>pname = ''resizable'', ptype = ''boolean'', penum = None,
           pdefault = Some (PBool False)\<rparr>"
  "List.find (\<lambda>p. pname p = ''wait_for_response'') properties =
     Some \<lparr>pname = ''wait_for_response'', ptype = ''boolean'', penum = None,
           pdefault = Some (PBool True)\<rparr>"
  by (simp_all add: properties_def)

lemma typed_given:
  assumes "\<not> violates_schema d" and "List.find (\<lambda>p. pname p = k) properties = Some p"
    and "map_of d k = Some v"
  shows "\<not> wrong_type (ptype p) v"
proof -
  from assms(2) have "p \<in> set properties" and "pname p = k"
    by (auto simp: find_Some_iff)
  with schema_typed(1) [OF assms(1), of p v] assms(3) show ?thesis by simp
qed

lemma typed_get:
  assumes "\<not> violates_schema d" and "List.find (\<lambda>p. pname p = k) properties = Some p"
    and "\<not> wrong_type (ptype p) dflt"
  shows "\<not> wrong_type (ptype p) (py_get d k dflt)"
proof (cases "map_of d k")
  case None
  with assms(3) show ?thesis by (simp add: py_get_def)
next
  case (Some v)
  with typed_given [OF assms(1,2) Some] show ?thesis by (simp add: py_get_def)
qed

lemma truthy_typed:
  assumes "\<not> violates_schema d" and "List.find (\<lambda>p. pname p = k) properties = Some p"
    and "truthy (py_get d k PNone)"
  shows "\<not> wrong_type (ptype p) (py_get d k PNone)"
proof (cases "map_of d k")
  case None
  with assms(3) show ?thesis by (simp add: py_get_def)
next
  case (Some v)
  with typed_given [OF assms(1,2) Some] show ?thesis by (simp add: py_get_def)
qed

lemma well_typed_window:
  assumes "\<not> violates_schema d"
  shows "truthy (py_get d ''html'' PNone) \<Longrightarrow> isinstance_str (py_get d ''html'' PNone)"
    and "truthy (py_get d ''url'' PNone) \<Longrightarrow> isinstance_str (py_get d ''url'' PNone)"
    and "isinstance_str (py_get d ''title'' (PStr ''User Interface''))"
    and "isinstance_int (py_get d ''width'' (PInt 600))"
    and "isinstance_int (py_get d ''height'' (PInt 400))"
    and "isinstance_bool (py_get d ''modal'' (PBool True))"
    and "isinstance_int (py_get d ''timeout'' (PInt 0))"
    and "isinstance_bool (py_get d ''center_on_screen'' (PBool True))"
    and "isinstance_bool (py_get d ''always_on_top'' (PBool True))"
    and "isinstance_bool (py_get d ''bring_to_front'' (PBool True))"
    and "isinstance_bool (py_get d ''auto_resize'' (PBool False))"
    and "isinstance_bool (py_get d ''resizable'' (PBool False))"
    and "isinstance_bool (py_get d ''wait_for_response'' (PBool True))"
proof -
  show "isinstance_str (py_get d ''html'' PNone)" if "truthy (py_get d ''html'' PNone)"
    using truthy_typed [OF assms find_window_properties(1) that]
    by (simp add: isinstance_str_wrong_type)
  show "isinstance_str (py_get d ''url'' PNone)" if "truthy (py_get d ''url'' PNone)"
    using truthy_typed [OF assms find_window_properties(2) that]
    by (simp add: isinstance_str_wrong_type)
  show "isinstance_str (py_get d ''title'' (PStr ''User Interface''))"
    using typed_get [OF assms find_window_properties(3), of "PStr ''User Interface''"]
    by (simp add: isinstance_str_wrong_type)
  show "isinstance_int (py_get d ''width'' (PInt 600))"
    using typed_get [OF assms find_window_properties(4), of "PInt 600"]
    by (simp add: isinstance_int_wrong_type)
  show "isinstance_int (py_get d ''height'' (PInt 400))"
    using typed_get [OF assms find_window_properties(5), of "PInt 400"]
    by (simp add: isinstance_int_wrong_type)
  show "isinstance_bool (py_get d ''modal'' (PBool True))"
    using typed_get [OF assms find_window_properties(6), of "PBool True"]
    by (simp add: isinstance_bool_wrong_type)
  show "isinstance_int (py_get d ''timeout'' (PInt 0))"
    using typed_get [OF assms find_window_properties(7), of "PInt 0"]
    by (simp add: isinstance_int_wrong_type)
  show "isinstance_bool (py_get d ''center_on_screen'' (PBool True))"
    using typed_get [OF assms find_window_properties(8), of "PBool True"]
    by (simp add: isinstance_bool_wrong_type)
  show "isinstance_bool (py_get d ''always_on_top'' (PBool True))"
    using typed_get [OF assms find_window_properties(9), of "PBool True"]
    by (simp add: isinstance_bool_wrong_type)
  show "isinstance_bool (py_get d ''bring_to_front'' (PBool True))"
    using typed_get [OF assms find_window_properties(10), of "PBool True"]
    by (simp add: isinstance_bool_wrong_type)
  show "isinstance_bool (py_get d ''auto_resize'' (PBool False))"
    using typed_get [OF assms find_window_properties(11), of "PBool False"]
    by (simp add: isinstance_bool_wrong_type)
  show "isinstance_bool (py_get d ''resizable'' (PBool False))"
    using typed_get [OF assms find_window_properties(12), of "PBool False"]
    by (simp add: isinstance_bool_wrong_type)
  show "isinstance_bool (py_get d ''wait_for_response'' (PBool True))"
    using typed_get [OF assms find_window_properties(13), of "PBool True"]
    by (simp add: isinstance_bool_wrong_type)
qed

lemma validated_window:
  assumes "validate_parameters env d = (None, vp)"
  shows "py_get vp ''title'' (PStr ''User Interface'') = py_get d ''title'' (PStr ''User Interface'')"
    and "py_get vp ''width'' (PInt 600) = py_get d ''width'' (PInt 600)"
    and "py_get vp ''height'' (PInt 400) = py_get d ''height'' (PInt 400)"
    and "py_get vp ''center_on_screen'' (PBool True) = py_get d ''center_on_screen'' (PBool True)"
    and "py_get vp ''always_on_top'' (PBool True) = py_get d ''always_on_top'' (PBool True)"
    and "py_get vp ''bring_to_front'' (PBool True) = py_get d ''bring_to_front'' (PBool True)"
    and "py_get vp ''auto_resize'' (PBool False) = py_get d ''auto_resize'' (PBool False)"
    and "py_get vp ''resizable'' (PBool False) = py_get d ''resizable'' (PBool False)"
  by (rule validated_get [OF assms find_window_properties(3)], simp)
     (rule validated_get [OF assms find_window_properties(4)], simp,
      rule validated_get [OF assms find_window_properties(5)], simp,
      rule validated_get [OF assms find_window_properties(8)], simp,
      rule validated_get [OF assms find_window_properties(9)], simp,
      rule validated_get [OF assms find_window_properties(10)], simp,
      rule validated_get [OF assms find_window_properties(11)], simp,
      rule validated_get [OF assms find_window_properties(12)], simp)

lemma well_formed_window_params:
  assumes wf: "well_formed_window_call d" and v: "validate_parameters env d = (None, vp)"
  shows "window_params_error env (window_params vp) = None"
proof -
  from wf have ns: "\<not> violates_schema d"
    and content: "truthy (py_get d ''html'' PNone) \<noteq> truthy (py_get d ''url'' PNone)"
    and sizes: "0 < int_of (py_get d ''width'' (PInt 600))"
      "0 < int_of (py_get d ''height'' (PInt 400))"
      "0 \<le> int_of (py_get d ''timeout'' (PInt 0))"
    by (simp_all add: well_formed_window_call_def)
  note t = well_typed_window [OF ns]
  note f = validated_fields [OF v]
  note g = validated_window [OF v]
  have modal: "isinstance_bool (py_get (window_params vp) ''modal'' (PBool True))"
    using t(6) f(4) by (simp add: window_params_modal)
  have html: "truthy (py_get d ''html'' PNone) \<longrightarrow> isinstance_str (py_get d ''html'' PNone)"
    and url: "truthy (py_get d ''url'' PNone) \<longrightarrow> isinstance_str (py_get d ''url'' PNone)"
    using t(1,2) by blast+
  have w: "\<not> not_positive_int (py_get d ''width'' (PInt 600))"
    and h: "\<not> not_positive_int (py_get d ''height'' (PInt 400))"
    and tm: "\<not> not_nonnegative_int (py_get d ''timeout'' (PInt 0))"
    using sizes t(4,5,7) by (simp_all add: not_positive_int_of not_nonnegative_int_of)
  show ?thesis
    unfolding window_params_error_def Let_def first_error_None
    using content html url w h tm modal t(3,8-13)
    by (auto simp: window_params_get f(2,3,5,6) g)
qed

lemma handle_user_well_formed:
  assumes eff: "pop_handler_info x = Inr popped" "collapse_input popped = PDict d"
    and tok: "valid_token env a (py_get d ''tool_unlock_token'' PNone)"
    and wf: "well_formed_window_call d"
  obtains vp where "validate_parameters env d = (None, vp)"
    and "window_params_error env (window_params vp) = None"
    and "handle_user env st x =
           (json_response env (fst (params_window env st (window_params vp))),
            snd (params_window env st (window_params vp)))"
proof -
  from wf have op: "py_get d ''operation'' PNone = PStr ''show_popup'' \<or>
                    py_get d ''operation'' PNone = PStr ''show_dialog''"
    and ns: "\<not> violates_schema d"
    by (simp_all add: well_formed_window_call_def)
  from op have nr: "py_get d ''operation'' PNone \<noteq> PStr ''readme''" by auto
  from handle_user_gate [OF eff nr, of env st] token_rejected_valid [OF tok]
  have hu: "handle_user env st x = validate_and_dispatch env st d" by simp
  from validate_parameters_complete [OF ns nr, of env] obtain vp
    where v: "validate_parameters env d = (None, vp)" by blast
  note f = validated_fields [OF v]
  from op f(1) f(7) have
    "dispatch_operation env st vp = show_html_window env st (window_params vp)"
    by (auto simp: window_params_def dispatch_show_popup dispatch_show_dialog)
  with hu v have hu': "handle_user env st x = show_html_window env st (window_params vp)"
    by (simp add: validate_and_dispatch_ok)
  note ok = well_formed_window_params [OF wf v]
  from hu' ok have "handle_user env st x =
           (json_response env (fst (params_window env st (window_params vp))),
            snd (params_window env st (window_params vp)))"
    by (simp add: show_html_window_ok)
  with v ok show ?thesis by (rule that)
qed

text \<open>The two conditions are exactly what it takes for a window call to be served.\<close>

lemma token_rejected_FalseD:
  assumes "token_rejected env tok = Inr False"
  shows "\<exists>a. valid_token env a tok"
proof (rule ccontr)
  assume n: "\<not> (\<exists>a. valid_token env a tok)"
  then have "tok \<noteq> PStr (TOOL_UNLOCK_TOKEN env)"
    by (auto simp: valid_token_def)
  moreover from n have "CHR ''-'' \<notin> set a \<Longrightarrow>
      tok \<noteq> PStr (''-'' @ a @ ''-'' @ TOOL_UNLOCK_TOKEN env)" for a
    by (auto simp: valid_token_def)
  ultimately have "token_rejected env tok \<noteq> Inr False"
    by (rule token_rejected_unauthorized)
  with assms show False by simp
qed

lemma window_call_served_iff:
  assumes eff: "pop_handler_info x = Inr popped" "collapse_input popped = PDict d"
    and op: "py_get d ''operation'' PNone = PStr ''show_popup'' \<or>
             py_get d ''operation'' PNone = PStr ''show_dialog''"
  shows "\<not> isError (fst (handle_user env st x)) \<longleftrightarrow>
           (\<exists>a. valid_token env a (py_get d ''tool_unlock_token'' PNone)) \<and>
           well_formed_window_call d"
proof
  assume served: "\<not> isError (fst (handle_user env st x))"
  from op have nr: "py_get d ''operation'' PNone \<noteq> PStr ''readme''" by auto
  note gate = handle_user_gate [OF eff nr, of env st]
  from served gate have tr: "token_rejected env (py_get d ''tool_unlock_token'' PNone) = Inr False"
    by (auto simp: invalid_token_response_def split: sum.splits bool.splits)
  with gate have hu: "handle_user env st x = validate_and_dispatch env st d" by simp
  obtain eo vp where v0: "validate_parameters env d = (eo, vp)" by force
  have "eo = None"
  proof (cases eo)
    case (Some m)
    with v0 served hu show ?thesis
      by (simp add: validate_and_dispatch_error)
  qed simp
  with v0 have v: "validate_parameters env d = (None, vp)" by simp
  have ns: "\<not> violates_schema d"
  proof
    assume "violates_schema d"
    from violates_schema_detected [OF this nr, of env] v show False by simp
  qed
  note f = validated_fields [OF v]
  note g = validated_window [OF v]
  from op f(1) f(7) have
    "dispatch_operation env st vp = show_html_window env st (window_params vp)"
    by (auto simp: window_params_def dispatch_show_popup dispatch_show_dialog)
  with hu v have hu': "handle_user env st x = show_html_window env st (window_params vp)"
    by (simp add: validate_and_dispatch_ok)
  have ok: "window_params_error env (window_params vp) = None"
  proof (cases "window_params_error env (window_params vp)")
    case (Some e)
    with hu' served show ?thesis
      by (cases e) (simp add: show_html_window_error)
  qed simp
  note n = window_params_error_NoneD [OF ok]
  note t = well_typed_window [OF ns]
  from n(1) f(2,3) have content:
    "truthy (py_get d ''html'' PNone) \<noteq> truthy (py_get d ''url'' PNone)"
    by (simp add: window_params_get)
  from n(5) g(2) t(4) have w: "0 < int_of (py_get d ''width'' (PInt 600))"
    by (simp add: window_params_get not_positive_int_of)
  from n(6) g(3) t(5) have h: "0 < int_of (py_get d ''height'' (PInt 400))"
    by (simp add: window_params_get not_positive_int_of)
  from n(3) f(6) t(7) have tm: "0 \<le> int_of (py_get d ''timeout'' (PInt 0))"
    by (simp add: window_params_get not_nonnegative_int_of)
  from op ns content w h tm have "well_formed_window_call d"
    by (simp add: well_formed_window_call_def)
  with token_rejected_FalseD [OF tr]
  show "(\<exists>a. valid_token env a (py_get d ''tool_unlock_token'' PNone)) \<and>
        well_formed_window_call d"
    by blast
next
  assume "(\<exists>a. valid_token env a (py_get d ''tool_unlock_token'' PNone)) \<and>
          well_formed_window_call d"
  then obtain a where tok: "valid_token env a (py_get d ''tool_unlock_token'' PNone)"
    and wf: "well_formed_window_call d"
    by blast
  show "\<not> isError (fst (handle_user env st x))"
    by (rule handle_user_well_formed [OF eff tok wf, of st]) simp
qed
subsection \<open>The example installation\<close>

lemma env0_sel [simp]:
  "TOOL_UNLOCK_TOKEN env0 = ''T0KEN''"
  "consumer env0 r = None"
  "engine env0 = Emit_Returns"
  "TIMEOUT_MAX env0 = 9223372036"
  by (simp_all add: env0_def)


section \<open>The claims\<close>

text \<open>
  In the statements below the input of a call is \<open>x\<close>; \<open>pop_handler_info x = Inr popped\<close>
  and \<open>collapse_input popped = PDict d\<close> say that the call carries the dictionary \<open>d\<close> of
  tool parameters, directly or under \<^verbatim>\<open>"input"\<close>.
\<close>




text \<open>
  C2, as the code has it. Ten operations submit a request to the queue of the presentation
  thread. When that queue does not exist, each of them returns its no-consumer outcome and
  leaves the world as it was (nothing is enqueued and no read of a reply queue is made, so
  no timeout can arise): the window operations and \<^verbatim>\<open>test_queue\<close> return the body
  \<open>no_ui_queue_qt\<close>, whose status is \<^verbatim>\<open>error\<close> and not \<^verbatim>\<open>timeout\<close>, for every timeout
  argument, 0 included; the six dashboard operations return an error envelope that names
  the missing queue. For every call whatever, no read of a reply queue is made when the
  queue does not exist. (The operations \<^verbatim>\<open>readme\<close> and \<^verbatim>\<open>show_toast\<close> never use the
  queue.)
\<close>

theorem no_consumer_is_reported_not_timed_out:
  assumes "friday_ui_queue st = None"
  shows "show_webengine_window env st html title width height modal timeout center_on_screen
           always_on_top bring_to_front auto_resize url resizable wait_for_response
           = (no_ui_queue_qt, st)
       \<and> map_of (case no_ui_queue_qt of PDict d \<Rightarrow> d | _ \<Rightarrow> []) ''status'' = Some (PStr ''error'')
       \<and> no_ui_queue_qt \<noteq> ui_timeout env bound
       \<and> (window_params_error env params = None \<longrightarrow>
            show_html_window env st params =
              (\<lparr>content_text = json_dumps env no_ui_queue_qt, isError = False\<rparr>, st))
       \<and> (generate_api_key_collection_html env (py_get params ''service_name'' (PStr ''API Service''))
              (py_get params ''service_url'' (PStr '''')) = Inr page \<and> page \<noteq> [] \<longrightarrow>
            collect_api_key_from_user env st params =
              (\<lparr>content_text = json_dumps env no_ui_queue_qt, isError = False\<rparr>, st))
       \<and> test_queue_communication env st params =
            (\<lparr>content_text = json_dumps env no_ui_queue_qt, isError = False\<rparr>, st)
       \<and> (truthy (py_get params ''content'' PNone)
            \<and> slice_exn (py_get params ''content'' PNone) = None \<longrightarrow>
            send_message_to_user env st params =
              (\<lparr>content_text = ''No UI request queue available. Ensure friday.py is running.'',
                isError = True\<rparr>, st))
       \<and> check_user_messages env st params =
            (\<lparr>content_text = ''No UI request queue available. Ensure friday.py is running.'',
              isError = True\<rparr>, st)
       \<and> show_message_dashboard env st params =
            (\<lparr>content_text = ''No UI request queue available. Ensure friday.py is running.'',
              isError = True\<rparr>, st)
       \<and> hide_message_dashboard env st params =
            (\<lparr>content_text = ''No UI request queue available.'', isError = True\<rparr>, st)
       \<and> get_message_history env st params =
            (\<lparr>content_text = ''No UI request queue available.'', isError = True\<rparr>, st)
       \<and> clear_message_queues env st params =
            (\<lparr>content_text = ''No UI request queue available.'', isError = True\<rparr>, st)
       \<and> waited (snd (handle_user env st x)) = waited st
       \<and> friday_ui_queue (snd (handle_user env st x)) = None"
proof -
  have w: "show_webengine_window env st html title width height modal timeout center_on_screen
           always_on_top bring_to_front auto_resize url resizable wait_for_response
           = (no_ui_queue_qt, st)"
    by (rule show_webengine_window_None [OF assms])
  have s: "map_of (case no_ui_queue_qt of PDict d \<Rightarrow> d | _ \<Rightarrow> []) ''status'' = Some (PStr ''error'')"
    "no_ui_queue_qt \<noteq> ui_timeout env bound"
    by (simp_all add: no_ui_queue_qt_def ui_timeout_def)
  have h: "window_params_error env p = None \<Longrightarrow>
            show_html_window env st p =
              (\<lparr>content_text = json_dumps env no_ui_queue_qt, isError = False\<rparr>, st)" for p
    by (simp add: show_html_window_ok params_window_None [OF assms] json_response_def)
  have c: "collect_api_key_from_user env st params =
              (\<lparr>content_text = json_dumps env no_ui_queue_qt, isError = False\<rparr>, st)"
    if "generate_api_key_collection_html env (py_get params ''service_name'' (PStr ''API Service''))
              (py_get params ''service_url'' (PStr '''')) = Inr page" "page \<noteq> []"
    using that by (simp add: collect_api_key_from_user_def Let_def h [OF collect_params_ok])
  have t: "test_queue_communication env st params =
            (\<lparr>content_text = json_dumps env no_ui_queue_qt, isError = False\<rparr>, st)"
    using assms
    by (simp add: test_queue_communication_def test_queue_message_passing_def json_response_def)
  have m: "send_message_to_user env st params =
              (\<lparr>content_text = ''No UI request queue available. Ensure friday.py is running.'',
                isError = True\<rparr>, st)"
    if "truthy (py_get params ''content'' PNone)" "slice_exn (py_get params ''content'' PNone) = None"
    using that assms
    by (simp add: send_message_to_user_def Let_def create_error_response_def)
  have d: "check_user_messages env st params =
            (\<lparr>content_text = ''No UI request queue available. Ensure friday.py is running.'',
              isError = True\<rparr>, st)"
    "show_message_dashboard env st params =
            (\<lparr>content_text = ''No UI request queue available. Ensure friday.py is running.'',
              isError = True\<rparr>, st)"
    "hide_message_dashboard env st params =
            (\<lparr>content_text = ''No UI request queue available.'', isError = True\<rparr>, st)"
    "get_message_history env st params =
            (\<lparr>content_text = ''No UI request queue available.'', isError = True\<rparr>, st)"
    "clear_message_queues env st params =
            (\<lparr>content_text = ''No UI request queue available.'', isError = True\<rparr>, st)"
    using assms
    by (simp_all add: check_user_messages_def show_message_dashboard_def
          hide_message_dashboard_def get_message_history_def clear_message_queues_def
          create_error_response_def)
  from handle_user_frame [of env st x] assms
  have f: "waited (snd (handle_user env st x)) = waited st"
    "friday_ui_queue (snd (handle_user env st x)) = None"
    by auto
  from w s h c t m d f show ?thesis by blast
qed

theorem no_consumer_witness:
  "handle_user env0 st_no_consumer
     (PDict [(''operation'', PStr ''show_popup''), (''tool_unlock_token'', PStr ''T0KEN''),
             (''html'', PStr ''<p>hello</p>''), (''timeout'', PInt 0)])
   = (\<lparr>content_text = json_dumps env0 no_ui_queue_qt, isError = False\<rparr>, st_no_consumer)
   \<and> no_ui_queue_qt \<noteq> ui_timeout env0 (PInt 65)
   \<and> waited (snd (handle_user env0 st_no_consumer
        (PDict [(''operation'', PStr ''show_popup''), (''tool_unlock_token'', PStr ''T0KEN''),
                (''html'', PStr ''<p>hello</p>''), (''timeout'', PInt 0)]))) = []"
proof -
  let ?x = "PDict [(''operation'', PStr ''show_popup''), (''tool_unlock_token'', PStr ''T0KEN''),
             (''html'', PStr ''<p>hello</p>''), (''timeout'', PInt 0)]"
  have q: "friday_ui_queue st_no_consumer = None" "waited st_no_consumer = []"
    by (simp_all add: st_no_consumer_def)
  have e: "handle_user env0 st_no_consumer ?x
             = (\<lparr>content_text = json_dumps env0 no_ui_queue_qt, isError = False\<rparr>, st_no_consumer)"
    by code_simp
  from no_consumer_is_reported_not_timed_out [OF q(1), where env = env0 and x = ?x
     and bound = "PInt 65"] q(2) e
  show ?thesis by simp
qed

theorem no_consumer_counterexample:
  "friday_ui_queue st_no_consumer = None \<and>
   fst (handle_user env0 st_no_consumer
     (PDict [(''operation'', PStr ''show_toast''), (''tool_unlock_token'', PStr ''T0KEN''),
             (''message'', PStr ''done'')]))
   = \<lparr>content_text = json_dumps env0
         (PDict [(''status'', PStr ''success''),
                 (''message'', PStr ''Toast notification sent successfully''),
                 (''level'', PStr ''info''), (''text'', PStr ''done'')]),
      isError = False\<rparr>"
  by code_simp

text \<open>
  C3. A \<^verbatim>\<open>show_popup\<close> or \<^verbatim>\<open>show_dialog\<close> call with \<^verbatim>\<open>wait_for_response = false\<close>,
  made with a valid token and well-formed parameters (\<open>well_formed_window_call\<close>: nothing
  the schema forbids, exactly one of \<^verbatim>\<open>html\<close> and \<^verbatim>\<open>url\<close>, positive sizes, no negative
  timeout; by \<open>window_call_served_iff\<close> these are exactly the window calls that the
  handler serves) while the presentation thread has a queue, returns the success envelope of the
  asynchronous mode, and the only change to the world is one request appended to the queue,
  carrying the caller's \<^verbatim>\<open>html\<close> and \<^verbatim>\<open>url\<close>. No read of the reply queue is recorded in
  \<open>waited\<close>, and the result is the same whatever the presentation thread does
  (\<open>consumer env\<close> is arbitrary).
\<close>

theorem fire_and_forget_enqueues_and_returns:
  assumes "pop_handler_info x = Inr popped"
    and "collapse_input popped = PDict d"
    and "valid_token env a (py_get d ''tool_unlock_token'' PNone)"
    and "well_formed_window_call d"
    and "py_get d ''wait_for_response'' (PBool True) = PBool False"
    and "friday_ui_queue st = Some q"
  shows "\<exists>r. handle_user env st x =
               (\<lparr>content_text = json_dumps env async_success, isError = False\<rparr>,
                st\<lparr>friday_ui_queue := Some (q @ [r])\<rparr>) \<and>
             req_operation r = ''show_popup'' \<and>
             request_field r ''html'' = Some (py_get d ''html'' PNone) \<and>
             request_field r ''url'' = Some (py_get d ''url'' PNone)"
proof (rule handle_user_well_formed [OF assms(1-4), of st])
  fix vp
  assume v: "validate_parameters env d = (None, vp)"
    and hu: "handle_user env st x =
           (json_response env (fst (params_window env st (window_params vp))),
            snd (params_window env st (window_params vp)))"
  note f = validated_fields [OF v]
  from f(5) assms(5)
  have "\<not> truthy (py_get (window_params vp) ''wait_for_response'' (PBool True))"
    by (simp add: window_params_get)
  from params_window_async [OF assms(6) this, of env] hu f(2,3)
  show ?thesis
    by (auto simp: json_response_def request_field_params_request window_params_get)
qed

theorem fire_and_forget_witness:
  "(\<exists>r. handle_user env0 st0
         (PDict [(''operation'', PStr ''show_popup''), (''tool_unlock_token'', PStr ''T0KEN''),
                 (''html'', PStr ''<p>hello</p>''),
                 (''wait_for_response'', PBool False)]) =
         (\<lparr>content_text = json_dumps env0 async_success, isError = False\<rparr>,
          st0\<lparr>friday_ui_queue := Some [r]\<rparr>) \<and>
       req_operation r = ''show_popup'' \<and>
       request_field r ''html'' = Some (PStr ''<p>hello</p>'') \<and>
       request_field r ''url'' = Some PNone) \<and>
   (\<exists>r. handle_user env0 st0
         (PDict [(''operation'', PStr ''show_dialog''),
                 (''tool_unlock_token'', PStr ''-caller-T0KEN''),
                 (''url'', PStr ''https://example.org/''),
                 (''wait_for_response'', PBool False)]) =
         (\<lparr>content_text = json_dumps env0 async_success, isError = False\<rparr>,
          st0\<lparr>friday_ui_queue := Some [r]\<rparr>) \<and>
       req_operation r = ''show_popup'' \<and>
       request_field r ''html'' = Some PNone \<and>
       request_field r ''url'' = Some (PStr ''https://example.org/''))"
proof -
  let ?h = "[(''operation'', PStr ''show_popup''), (''tool_unlock_token'', PStr ''T0KEN''),
             (''html'', PStr ''<p>hello</p>''), (''wait_for_response'', PBool False)]"
  let ?u = "[(''operation'', PStr ''show_dialog''),
             (''tool_unlock_token'', PStr ''-caller-T0KEN''),
             (''url'', PStr ''https://example.org/''), (''wait_for_response'', PBool False)]"
  have q: "friday_ui_queue st0 = Some []" by (simp add: st0_def)
  have h: "pop_handler_info (PDict ?h) = Inr ?h" "collapse_input ?h = PDict ?h"
    by (simp_all add: pop_handler_info_def collapse_input_def)
  have ht: "valid_token env0 [] (py_get ?h ''tool_unlock_token'' PNone)"
    by (simp add: valid_token_def py_get_def)
  have hw: "well_formed_window_call ?h"
    by code_simp
  have hf: "py_get ?h ''wait_for_response'' (PBool True) = PBool False"
    "py_get ?h ''html'' PNone = PStr ''<p>hello</p>''" "py_get ?h ''url'' PNone = PNone"
    by (simp_all add: py_get_def)
  have u: "pop_handler_info (PDict ?u) = Inr ?u" "collapse_input ?u = PDict ?u"
    by (simp_all add: pop_handler_info_def collapse_input_def)
  have ut: "valid_token env0 ''caller'' (py_get ?u ''tool_unlock_token'' PNone)"
    by (simp add: valid_token_def py_get_def)
  have uw: "well_formed_window_call ?u"
    by code_simp
  have uf: "py_get ?u ''wait_for_response'' (PBool True) = PBool False"
    "py_get ?u ''html'' PNone = PNone" "py_get ?u ''url'' PNone = PStr ''https://example.org/''"
    by (simp_all add: py_get_def)
  from fire_and_forget_enqueues_and_returns [OF h ht hw hf(1) q]
    fire_and_forget_enqueues_and_returns [OF u ut uw uf(1) q]
  show ?thesis
    unfolding hf(2,3) uf(2,3) by simp
qed

text \<open>
  C4, as the code has it. The claim fails for a window call with the timeout 0, which waits
  65 seconds and not 5. What holds, while the presentation thread has a queue and on a
  platform whose \<^verbatim>\<open>threading.TIMEOUT_MAX\<close> is a float of at least 10 (it is on every
  platform of CPython):
  a well-formed window call that waits, with the timeout \<open>t\<close>, has the bound \<open>t + 5\<close> when
  \<open>t > 0\<close> and 65 when \<open>t = 0\<close> (no interaction timeout). When that bound does not exceed
  \<^verbatim>\<open>TIMEOUT_MAX\<close>, the call reads its reply queue once, with that bound, and when the
  presentation thread does not answer within it the call returns the body with status
  \<^verbatim>\<open>timeout\<close>. (When the bound exceeds \<^verbatim>\<open>TIMEOUT_MAX\<close> and no reply is there already,
  the queue refuses the read: the call returns at once, with a body of status \<^verbatim>\<open>error\<close>
  that carries the \<^verbatim>\<open>OverflowError\<close>.)
  The six dashboard operations read their reply queue once with the bound 5, and 10 for
  \<^verbatim>\<open>show_dashboard\<close>; when the presentation thread does not answer within the bound, each
  returns an error envelope that says so.
\<close>

theorem wait_bounds:
  assumes "friday_ui_queue st = Some q"
    and "10 \<le> TIMEOUT_MAX env"
    and "TIMEOUT_MAX env < of_int FLOAT_LIMIT"
  shows "(pop_handler_info x = Inr popped \<and> collapse_input popped = PDict d
          \<and> valid_token env a (py_get d ''tool_unlock_token'' PNone)
          \<and> well_formed_window_call d
          \<and> py_get d ''wait_for_response'' (PBool True) = PBool True
          \<and> int_of (py_get d ''timeout'' (PInt 0)) = t
          \<and> bound = (if 0 < t then t + 5 else 65) \<longrightarrow>
            (of_int bound \<le> TIMEOUT_MAX env \<longrightarrow>
               waited (snd (handle_user env st x)) = waited st @ [of_int bound] \<and>
               (no_reply_within env (of_int bound) \<longrightarrow>
                  fst (handle_user env st x) =
                    \<lparr>content_text = json_dumps env (ui_timeout env (PInt bound)),
                     isError = False\<rparr>)) \<and>
            (TIMEOUT_MAX env < of_int bound \<and> no_reply_ready env \<longrightarrow>
               waited (snd (handle_user env st x)) = waited st \<and>
               (\<exists>m. fst (handle_user env st x) =
                    \<lparr>content_text = json_dumps env (ui_error (OverflowError m)),
                     isError = False\<rparr>)))
       \<and> (truthy (py_get params ''content'' PNone)
            \<and> slice_exn (py_get params ''content'' PNone) = None \<longrightarrow>
            waited (snd (send_message_to_user env st params)) = waited st @ [5] \<and>
            (no_reply_within env 5 \<longrightarrow>
               fst (send_message_to_user env st params) =
                 \<lparr>content_text = ''Timeout waiting for message queue confirmation'', isError = True\<rparr>))
       \<and> waited (snd (check_user_messages env st params)) = waited st @ [5] \<and>
            (no_reply_within env 5 \<longrightarrow>
               fst (check_user_messages env st params) =
                 \<lparr>content_text = ''Timeout waiting for message check response'', isError = True\<rparr>)
       \<and> waited (snd (show_message_dashboard env st params)) = waited st @ [10] \<and>
            (no_reply_within env 10 \<longrightarrow>
               fst (show_message_dashboard env st params) =
                 \<lparr>content_text = ''Timeout waiting for dashboard to show'', isError = True\<rparr>)
       \<and> waited (snd (hide_message_dashboard env st params)) = waited st @ [5] \<and>
            (no_reply_within env 5 \<longrightarrow>
               fst (hide_message_dashboard env st params) =
                 \<lparr>content_text = ''Timeout waiting for dashboard to hide'', isError = True\<rparr>)
       \<and> waited (snd (get_message_history env st params)) = waited st @ [5] \<and>
            (no_reply_within env 5 \<longrightarrow>
               fst (get_message_history env st params) =
                 \<lparr>content_text = ''Timeout waiting for message history'', isError = True\<rparr>)
       \<and> waited (snd (clear_message_queues env st params)) = waited st @ [5] \<and>
            (no_reply_within env 5 \<longrightarrow>
               fst (clear_message_queues env st params) =
                 \<lparr>content_text = ''Timeout waiting for clear confirmation'', isError = True\<rparr>)"
proof -
  have g5: "reply_queue_get env s r (PInt 5) =
     (case consumer env r of
        None \<Rightarrow> Inl Queue_Empty
      | Some (d, v) \<Rightarrow> if d \<le> 5 then Inr v else Inl Queue_Empty,
      s\<lparr>waited := waited s @ [5]\<rparr>)" for s r
  proof -
    have "0 \<le> (5::int)" "of_int 5 \<le> TIMEOUT_MAX env"
      using assms(2) by simp_all
    from reply_queue_get_PInt [OF this(1) small_bounds(1) this(2), of s r]
    show ?thesis by (simp only: of_int_numeral)
  qed
  have g10: "reply_queue_get env s r (PInt 10) =
     (case consumer env r of
        None \<Rightarrow> Inl Queue_Empty
      | Some (d, v) \<Rightarrow> if d \<le> 10 then Inr v else Inl Queue_Empty,
      s\<lparr>waited := waited s @ [10]\<rparr>)" for s r
  proof -
    have "0 \<le> (10::int)" "of_int 10 \<le> TIMEOUT_MAX env"
      using assms(2) by simp_all
    from reply_queue_get_PInt [OF this(1) small_bounds(2) this(2), of s r]
    show ?thesis by (simp only: of_int_numeral)
  qed
  have win: "(of_int bound \<le> TIMEOUT_MAX env \<longrightarrow>
               waited (snd (handle_user env st x)) = waited st @ [of_int bound] \<and>
               (no_reply_within env (of_int bound) \<longrightarrow>
                  fst (handle_user env st x) =
                    \<lparr>content_text = json_dumps env (ui_timeout env (PInt bound)),
                     isError = False\<rparr>)) \<and>
            (TIMEOUT_MAX env < of_int bound \<and> no_reply_ready env \<longrightarrow>
               waited (snd (handle_user env st x)) = waited st \<and>
               (\<exists>m. fst (handle_user env st x) =
                    \<lparr>content_text = json_dumps env (ui_error (OverflowError m)),
                     isError = False\<rparr>))"
    if eff: "pop_handler_info x = Inr popped" "collapse_input popped = PDict d"
      and tok: "valid_token env a (py_get d ''tool_unlock_token'' PNone)"
      and wf: "well_formed_window_call d"
      and wait: "py_get d ''wait_for_response'' (PBool True) = PBool True"
      and t: "int_of (py_get d ''timeout'' (PInt 0)) = t"
      and b: "bound = (if 0 < t then t + 5 else 65)"
  proof (rule handle_user_well_formed [OF eff tok wf, of st])
    fix vp
    assume v: "validate_parameters env d = (None, vp)"
      and hu: "handle_user env st x =
           (json_response env (fst (params_window env st (window_params vp))),
            snd (params_window env st (window_params vp)))"
    note f = validated_fields [OF v]
    from wf have ns: "\<not> violates_schema d"
      by (simp add: well_formed_window_call_def)
    have w: "py_get (window_params vp) ''wait_for_response'' (PBool True) = PBool True"
      using f(5) wait by (simp add: window_params_get)
    have tm: "py_get (window_params vp) ''timeout'' (PInt 0) = py_get d ''timeout'' (PInt 0)"
      using f(6) by (simp add: window_params_get)
    have ti: "isinstance_int (py_get (window_params vp) ''timeout'' (PInt 0))"
      unfolding tm by (rule well_typed_window(7) [OF ns])
    have b': "bound = (if 0 < int_of (py_get (window_params vp) ''timeout'' (PInt 0))
                       then int_of (py_get (window_params vp) ''timeout'' (PInt 0)) + 5 else 65)"
      unfolding tm t by (rule b)
    have one: "waited (snd (handle_user env st x)) = waited st @ [of_int bound] \<and>
               (no_reply_within env (of_int bound) \<longrightarrow>
                  fst (handle_user env st x) =
                    \<lparr>content_text = json_dumps env (ui_timeout env (PInt bound)),
                     isError = False\<rparr>)"
      if le: "of_int bound \<le> TIMEOUT_MAX env"
    proof -
      from le assms(3) have "(of_int bound :: rat) < of_int FLOAT_LIMIT" by simp
      then have fl: "bound < FLOAT_LIMIT" by simp
      from hu show ?thesis
        unfolding params_window_waits [OF assms(1) w ti b' fl le]
        by (simp add: json_response_def no_reply_case)
    qed
    have two: "waited (snd (handle_user env st x)) = waited st \<and>
               (\<exists>m. fst (handle_user env st x) =
                    \<lparr>content_text = json_dumps env (ui_error (OverflowError m)),
                     isError = False\<rparr>)"
      if gt: "TIMEOUT_MAX env < of_int bound" and nr: "no_reply_ready env"
    proof -
      from nr have "\<not> reply_ready env (params_request (window_params vp))"
        by (simp add: no_reply_ready_def)
      from params_window_overflow [OF assms(1) w ti b' this] gt obtain m where
        "params_window env st (window_params vp) =
           (ui_error (OverflowError m),
            st\<lparr>friday_ui_queue := Some (q @ [params_request (window_params vp)])\<rparr>)"
        by blast
      with hu show ?thesis
        by (auto simp: json_response_def)
    qed
    from one two show ?thesis by blast
  qed
  have send: "waited (snd (send_message_to_user env st params)) = waited st @ [5] \<and>
          (no_reply_within env 5 \<longrightarrow>
             fst (send_message_to_user env st params) =
               \<lparr>content_text = ''Timeout waiting for message queue confirmation'', isError = True\<rparr>)"
    if "truthy (py_get params ''content'' PNone)" "slice_exn (py_get params ''content'' PNone) = None"
    using that assms(1)
    by (auto simp: send_message_to_user_def Let_def queue_put_def create_error_response_def
             g5 no_reply_case2
             split: option.splits sum.splits exn.splits)
  have check: "waited (snd (check_user_messages env st params)) = waited st @ [5] \<and>
            (no_reply_within env 5 \<longrightarrow>
               fst (check_user_messages env st params) =
                 \<lparr>content_text = ''Timeout waiting for message check response'', isError = True\<rparr>)"
    using assms(1)
    by (auto simp: check_user_messages_def Let_def queue_put_def create_error_response_def
             g5 no_reply_case2
             split: option.splits sum.splits exn.splits)
  have show_d: "waited (snd (show_message_dashboard env st params)) = waited st @ [10] \<and>
            (no_reply_within env 10 \<longrightarrow>
               fst (show_message_dashboard env st params) =
                 \<lparr>content_text = ''Timeout waiting for dashboard to show'', isError = True\<rparr>)"
    using assms(1)
    by (auto simp: show_message_dashboard_def Let_def queue_put_def create_error_response_def
             g10 no_reply_case2
             split: option.splits sum.splits exn.splits)
  have hide: "waited (snd (hide_message_dashboard env st params)) = waited st @ [5] \<and>
            (no_reply_within env 5 \<longrightarrow>
               fst (hide_message_dashboard env st params) =
                 \<lparr>content_text = ''Timeout waiting for dashboard to hide'', isError = True\<rparr>)"
    using assms(1)
    by (auto simp: hide_message_dashboard_def Let_def queue_put_def create_error_response_def
             g5 no_reply_case2
             split: option.splits sum.splits exn.splits)
  have hist: "waited (snd (get_message_history env st params)) = waited st @ [5] \<and>
            (no_reply_within env 5 \<longrightarrow>
               fst (get_message_history env st params) =
                 \<lparr>content_text = ''Timeout waiting for message history'', isError = True\<rparr>)"
    using assms(1)
    by (auto simp: get_message_history_def Let_def queue_put_def create_error_response_def
             g5 no_reply_case2
             split: option.splits sum.splits exn.splits)
  have clear: "waited (snd (clear_message_queues env st params)) = waited st @ [5] \<and>
            (no_reply_within env 5 \<longrightarrow>
               fst (clear_message_queues env st params) =
                 \<lparr>content_text = ''Timeout waiting for clear confirmation'', isError = True\<rparr>)"
    using assms(1)
    by (auto simp: clear_message_queues_def Let_def queue_put_def create_error_response_def
             g5 no_reply_case2
             split: option.splits sum.splits exn.splits)
  from win send check show_d hide hist clear show ?thesis by blast
qed

theorem wait_bounds_witness:
  "waited (snd (handle_user env0 st0
       (PDict [(''operation'', PStr ''show_popup''), (''tool_unlock_token'', PStr ''T0KEN''),
               (''html'', PStr ''<p>hello</p>''), (''timeout'', PInt 10)]))) = [15]
   \<and> fst (handle_user env0 st0
       (PDict [(''operation'', PStr ''show_popup''), (''tool_unlock_token'', PStr ''T0KEN''),
               (''html'', PStr ''<p>hello</p>''), (''timeout'', PInt 10)])) =
       \<lparr>content_text = json_dumps env0 (ui_timeout env0 (PInt 15)), isError = False\<rparr>
   \<and> waited (snd (handle_user env0 st0
       (PDict [(''operation'', PStr ''show_popup''), (''tool_unlock_token'', PStr ''T0KEN''),
               (''html'', PStr ''<p>hello</p>''), (''timeout'', PInt 10000000000)]))) = []
   \<and> (\<exists>m. fst (handle_user env0 st0
       (PDict [(''operation'', PStr ''show_popup''), (''tool_unlock_token'', PStr ''T0KEN''),
               (''html'', PStr ''<p>hello</p>''), (''timeout'', PInt 10000000000)])) =
       \<lparr>content_text = json_dumps env0 (ui_error (OverflowError m)), isError = False\<rparr>)
   \<and> waited (snd (show_message_dashboard env0 st0 [])) = [10]
   \<and> fst (check_user_messages env0 st0 []) =
       \<lparr>content_text = ''Timeout waiting for message check response'', isError = True\<rparr>"
proof -
  let ?p = "\<lambda>t. [(''operation'', PStr ''show_popup''), (''tool_unlock_token'', PStr ''T0KEN''),
             (''html'', PStr ''<p>hello</p>''), (''timeout'', PInt t)]"
  have q: "friday_ui_queue st0 = Some []" "waited st0 = []"
    by (simp_all add: st0_def)
  have platform: "10 \<le> TIMEOUT_MAX env0" "TIMEOUT_MAX env0 < of_int FLOAT_LIMIT"
    by (simp_all add: env0_def FLOAT_LIMIT_def)
  have silent: "no_reply_within env0 b" for b
    by (simp add: no_reply_within_def)
  have unready: "no_reply_ready env0"
    by (simp add: no_reply_ready_def reply_ready_def)
  have eff: "pop_handler_info (PDict (?p t)) = Inr (?p t)" "collapse_input (?p t) = PDict (?p t)"
    for t
    by (simp_all add: pop_handler_info_def collapse_input_def)
  have tok: "valid_token env0 [] (py_get (?p t) ''tool_unlock_token'' PNone)" for t
    by (simp add: valid_token_def py_get_def)
  have wf: "well_formed_window_call (?p 10)" "well_formed_window_call (?p 10000000000)"
    by code_simp+
  have g: "py_get (?p t) ''wait_for_response'' (PBool True) = PBool True"
    "int_of (py_get (?p t) ''timeout'' (PInt 0)) = t" for t
    by (simp_all add: py_get_def int_of_def)
  from wait_bounds [OF q(1) platform, of "PDict (?p 10)" "?p 10" "?p 10" "[]" 10 15]
    eff [of 10] tok [of 10] wf(1) g [of 10] silent [of 15] q(2) platform
  have one: "waited (snd (handle_user env0 st0 (PDict (?p 10)))) = [15]"
    "fst (handle_user env0 st0 (PDict (?p 10))) =
       \<lparr>content_text = json_dumps env0 (ui_timeout env0 (PInt 15)), isError = False\<rparr>"
    by simp_all
  from wait_bounds [OF q(1) platform, of "PDict (?p 10000000000)" "?p 10000000000"
      "?p 10000000000" "[]" 10000000000 10000000005]
    eff [of 10000000000] tok [of 10000000000] wf(2) g [of 10000000000] unready q(2)
  have two: "waited (snd (handle_user env0 st0 (PDict (?p 10000000000)))) = []"
    "\<exists>m. fst (handle_user env0 st0 (PDict (?p 10000000000))) =
       \<lparr>content_text = json_dumps env0 (ui_error (OverflowError m)), isError = False\<rparr>"
    by (simp_all add: env0_def)
  from wait_bounds [OF q(1) platform, of _ _ _ _ _ _ "[]"] silent [of 5] q(2)
  have three: "waited (snd (show_message_dashboard env0 st0 [])) = [10]"
    "fst (check_user_messages env0 st0 []) =
       \<lparr>content_text = ''Timeout waiting for message check response'', isError = True\<rparr>"
    by simp_all
  from one two three show ?thesis by simp
qed

theorem wait_bound_counterexample:
  "py_get [(''operation'', PStr ''show_popup''), (''tool_unlock_token'', PStr ''T0KEN''),
           (''html'', PStr ''<p>hello</p>''), (''timeout'', PInt 0)] ''timeout'' PNone = PInt 0
   \<and> waited (snd (handle_user env0 st0
         (PDict [(''operation'', PStr ''show_popup''), (''tool_unlock_token'', PStr ''T0KEN''),
                 (''html'', PStr ''<p>hello</p>''), (''timeout'', PInt 0)]))) = [65]"
  by code_simp




text \<open>
  C6. A call whose dictionary has the operation \<^verbatim>\<open>readme\<close> returns the documentation with
  \<open>isError = False\<close> and leaves the world as it was, whatever else the dictionary holds (no
  hypothesis speaks of \<^verbatim>\<open>tool_unlock_token\<close>). The text is two newlines followed by the
  JSON of an object whose \<^verbatim>\<open>description\<close> is the README with the installation's token
  spliced in, and whose \<^verbatim>\<open>parameters\<close> are the schema.
\<close>

theorem readme_exempt_from_token:
  assumes "pop_handler_info x = Inr popped"
    and "collapse_input popped = PDict d"
    and "py_get d ''operation'' PNone = PStr ''readme''"
  shows "handle_user env st x =
           (\<lparr>content_text =
                ''\<newline>\<newline>'' @ json_dumps env
                  (PDict [(''description'',
                           PStr (README_HEAD env @ TOOL_UNLOCK_TOKEN env @ README_TAIL env)),
                          (''parameters'', real_parameters env)]),
              isError = False\<rparr>, st)"
  by (simp add: handle_user_readme [OF assms] readme_response_def readme_def README_def)

theorem readme_exempt_from_token_witness:
  "handle_user env0 st_no_consumer (PDict [(''input'', PDict [(''operation'', PStr ''readme'')])]) =
     (\<lparr>content_text =
          ''\<newline>\<newline>'' @ json_dumps env0
            (PDict [(''description'',
                     PStr (README_HEAD env0 @ TOOL_UNLOCK_TOKEN env0 @ README_TAIL env0)),
                    (''parameters'', real_parameters env0)]),
        isError = False\<rparr>, st_no_consumer)"
proof -
  have pop: "pop_handler_info (PDict [(''input'', PDict [(''operation'', PStr ''readme'')])])
               = Inr [(''input'', PDict [(''operation'', PStr ''readme'')])]"
    by (simp add: pop_handler_info_def)
  have col: "collapse_input [(''input'', PDict [(''operation'', PStr ''readme'')])]
               = PDict [(''operation'', PStr ''readme'')]"
    by (simp add: collapse_input_def)
  have op: "py_get [(''operation'', PStr ''readme'')] ''operation'' PNone = PStr ''readme''"
    by (simp add: py_get_def)
  show ?thesis
    by (rule readme_exempt_from_token [OF pop col op])
qed



text \<open>
  C8, as the code has it. The claim fails for a call that gives both \<^verbatim>\<open>html\<close> and
  \<^verbatim>\<open>url\<close> and leaves one of them empty: it is served as if only the other were given.
  What holds: for a \<^verbatim>\<open>show_popup\<close> or \<^verbatim>\<open>show_dialog\<close> call, \<^verbatim>\<open>html\<close> and \<^verbatim>\<open>url\<close>
  exclude each other and one of them is required, where a parameter counts as provided when
  its value is true for Python (a string that is not empty): when both are provided, or
  neither is, the call returns an error envelope with the documentation attached and leaves
  the world as it was, so no request is enqueued.
\<close>

theorem html_and_url_exclude_each_other:
  assumes "pop_handler_info x = Inr popped"
    and "collapse_input popped = PDict d"
    and "py_get d ''operation'' PNone = PStr ''show_popup'' \<or>
         py_get d ''operation'' PNone = PStr ''show_dialog''"
    and "truthy (py_get d ''html'' PNone) = truthy (py_get d ''url'' PNone)"
  shows "\<exists>msg. msg \<noteq> [] \<and>
           handle_user env st x =
             (\<lparr>content_text = msg @ readme env True, isError = True\<rparr>, st)"
proof (rule handle_user_window_cases [OF assms(1-3), of env st], goal_cases)
  case (1 msg w)
  with assms(4) show ?case
    by (auto simp: create_error_response_def)
next
  case (2 vp)
  from window_params_error_NoneD(1) [OF 2(2)] validated_fields(2,3) [OF 2(1)] assms(4)
  show ?case
    by (simp add: window_params_get)
qed

theorem html_and_url_exclude_each_other_witness:
  "(\<exists>msg. msg \<noteq> [] \<and>
      handle_user env0 st0
        (PDict [(''operation'', PStr ''show_popup''), (''tool_unlock_token'', PStr ''T0KEN''),
                (''html'', PStr ''<p>hello</p>''), (''url'', PStr ''https://example.org/'')]) =
        (\<lparr>content_text = msg @ readme env0 True, isError = True\<rparr>, st0)) \<and>
   (\<exists>msg. msg \<noteq> [] \<and>
      handle_user env0 st0
        (PDict [(''operation'', PStr ''show_dialog''), (''tool_unlock_token'', PStr ''T0KEN'')]) =
        (\<lparr>content_text = msg @ readme env0 True, isError = True\<rparr>, st0))"
proof -
  let ?both = "[(''operation'', PStr ''show_popup''), (''tool_unlock_token'', PStr ''T0KEN''),
                (''html'', PStr ''<p>hello</p>''), (''url'', PStr ''https://example.org/'')]"
  let ?neither = "[(''operation'', PStr ''show_dialog''), (''tool_unlock_token'', PStr ''T0KEN'')]"
  have b: "pop_handler_info (PDict ?both) = Inr ?both" "collapse_input ?both = PDict ?both"
    "py_get ?both ''operation'' PNone = PStr ''show_popup'' \<or>
     py_get ?both ''operation'' PNone = PStr ''show_dialog''"
    "truthy (py_get ?both ''html'' PNone) = truthy (py_get ?both ''url'' PNone)"
    by (simp_all add: pop_handler_info_def collapse_input_def py_get_def)
  have n: "pop_handler_info (PDict ?neither) = Inr ?neither"
    "collapse_input ?neither = PDict ?neither"
    "py_get ?neither ''operation'' PNone = PStr ''show_popup'' \<or>
     py_get ?neither ''operation'' PNone = PStr ''show_dialog''"
    "truthy (py_get ?neither ''html'' PNone) = truthy (py_get ?neither ''url'' PNone)"
    by (simp_all add: pop_handler_info_def collapse_input_def py_get_def)
  from html_and_url_exclude_each_other [OF b, of env0 st0]
    html_and_url_exclude_each_other [OF n, of env0 st0]
  show ?thesis by blast
qed

theorem empty_html_counterexample:
  "map_of [(''operation'', PStr ''show_popup''), (''tool_unlock_token'', PStr ''T0KEN''),
           (''html'', PStr ''''), (''url'', PStr ''https://example.org/''),
           (''wait_for_response'', PBool False)] ''html'' = Some (PStr '''') \<and>
   map_of [(''operation'', PStr ''show_popup''), (''tool_unlock_token'', PStr ''T0KEN''),
           (''html'', PStr ''''), (''url'', PStr ''https://example.org/''),
           (''wait_for_response'', PBool False)] ''url'' = Some (PStr ''https://example.org/'') \<and>
   handle_user env0 st0
     (PDict [(''operation'', PStr ''show_popup''), (''tool_unlock_token'', PStr ''T0KEN''),
             (''html'', PStr ''''), (''url'', PStr ''https://example.org/''),
             (''wait_for_response'', PBool False)])
   = (\<lparr>content_text = json_dumps env0 async_success, isError = False\<rparr>,
      st0\<lparr>friday_ui_queue :=
            Some [window_request (PStr '''') (PStr ''User Interface'') (PInt 600) (PInt 400)
                    (PBool False) (PInt 0) (PBool True) (PBool True) (PBool True)
                    (PBool False) (PStr ''https://example.org/'') (PBool False)]\<rparr>)"
  by code_simp

text \<open>
  C9, as the code has it. \<open>handle_user\<close> returns an envelope for every input and never
  raises: whenever the body of its \<^verbatim>\<open>try\<close> raises an exception \<open>e\<close>, the call returns an
  error envelope with the text of \<open>e\<close> and the documentation, and the world is as it was.
  Every envelope with \<open>isError = True\<close> carries a message. And whatever the outcome, the
  queue of the presentation thread is either untouched or has exactly one request more at
  its end: the requests of other calls are never disturbed.
\<close>

theorem handle_user_never_raises:
  "(handle_user_try env st x = Inl e \<longrightarrow>
      handle_user env st x =
        (\<lparr>content_text = ''Error in user interaction operation: '' @ str_exn e @ readme env True,
          isError = True\<rparr>, st))
   \<and> (isError (fst (handle_user env st x)) \<longrightarrow> content_text (fst (handle_user env st x)) \<noteq> [])
   \<and> (friday_ui_queue (snd (handle_user env st x)) = friday_ui_queue st \<or>
       (\<exists>q r. friday_ui_queue st = Some q \<and>
              friday_ui_queue (snd (handle_user env st x)) = Some (q @ [r])))"
proof -
  have "handle_user env st x =
        (\<lparr>content_text = ''Error in user interaction operation: '' @ str_exn e @ readme env True,
          isError = True\<rparr>, st)"
    if "handle_user_try env st x = Inl e"
    using that by (simp add: handle_user_def create_error_response_def)
  with handle_user_frame [of env st x] show ?thesis by blast
qed

theorem handle_user_never_raises_witness:
  "handle_user env0 st0
     (PDict [(''operation'', PStr ''clear_messages''), (''tool_unlock_token'', PInt 7)]) =
     (\<lparr>content_text = ''Error in user interaction operation: ''
          @ str_exn (AttributeError (quoted ''int'' @ '' object has no attribute ''
                                     @ quoted ''startswith''))
          @ readme env0 True,
        isError = True\<rparr>, st0)
   \<and> handle_user env0 st0 PNone =
     (\<lparr>content_text = ''Error in user interaction operation: ''
          @ str_exn (AttributeError (quoted ''NoneType'' @ '' object has no attribute ''
                                     @ quoted ''pop''))
          @ readme env0 True,
        isError = True\<rparr>, st0)"
proof -
  have a: "handle_user_try env0 st0
             (PDict [(''operation'', PStr ''clear_messages''), (''tool_unlock_token'', PInt 7)])
           = Inl (AttributeError (quoted ''int'' @ '' object has no attribute ''
                                  @ quoted ''startswith''))"
    by (simp add: handle_user_try_def pop_handler_info_def collapse_input_def py_get_def
          token_rejected_def is_inter_tool_call_def)
  have b: "handle_user_try env0 st0 PNone
           = Inl (AttributeError (quoted ''NoneType'' @ '' object has no attribute ''
                                  @ quoted ''pop''))"
    by (simp add: handle_user_try_def pop_handler_info_def)
  from handle_user_never_raises [of env0 st0 _ "AttributeError (quoted ''int'' @ '' object has no attribute '' @ quoted ''startswith'')"] a
    handle_user_never_raises [of env0 st0 PNone "AttributeError (quoted ''NoneType'' @ '' object has no attribute '' @ quoted ''pop'')"] b
  show ?thesis by simp
qed

theorem internal_failure_counterexample:
  "friday_ui_queue st_no_consumer = None \<and>
   handle_user env0 st_no_consumer
     (PDict [(''operation'', PStr ''show_dialog''), (''tool_unlock_token'', PStr ''T0KEN''),
             (''html'', PStr ''<p>hello</p>'')])
   = (\<lparr>content_text = json_dumps env0
          (PDict [(''status'', PStr ''error''),
                  (''error'', PStr ''No UI request queue available. Ensure friday.py is running with Qt support.'')]),
        isError = False\<rparr>, st_no_consumer)"
  by code_simp

text \<open>
  C10. For a \<^verbatim>\<open>show_popup\<close> call, and for a \<^verbatim>\<open>show_dialog\<close> call that leaves \<^verbatim>\<open>modal\<close>
  out: when the call returns an error nothing is sent (the world is as it was); when it
  returns no error and the presentation thread has a queue, exactly one request is appended
  to that queue, its operation is \<^verbatim>\<open>show_popup\<close> and its payload carries
  \<^verbatim>\<open>modal = false\<close> for \<^verbatim>\<open>show_popup\<close>, whatever the caller gave for \<^verbatim>\<open>modal\<close>, and
  \<^verbatim>\<open>modal = true\<close> for such a \<^verbatim>\<open>show_dialog\<close>.
\<close>

theorem show_popup_forces_modal_false:
  assumes "pop_handler_info x = Inr popped"
    and "collapse_input popped = PDict d"
    and "py_get d ''operation'' PNone = PStr ''show_popup'' \<and> m = PBool False \<or>
         py_get d ''operation'' PNone = PStr ''show_dialog'' \<and> map_of d ''modal'' = None
           \<and> m = PBool True"
  shows "(isError (fst (handle_user env st x)) \<longrightarrow> snd (handle_user env st x) = st) \<and>
         (\<not> isError (fst (handle_user env st x)) \<and> friday_ui_queue st = Some q \<longrightarrow>
            (\<exists>r. friday_ui_queue (snd (handle_user env st x)) = Some (q @ [r]) \<and>
                 req_operation r = ''show_popup'' \<and> request_field r ''modal'' = Some m))"
proof -
  from assms(3) have op: "py_get d ''operation'' PNone = PStr ''show_popup'' \<or>
                          py_get d ''operation'' PNone = PStr ''show_dialog''"
    by auto
  show ?thesis
  proof (rule handle_user_window_cases [OF assms(1,2) op, of env st], goal_cases)
    case (1 msg w)
    then show ?case by simp
  next
    case (2 vp)
    note f = validated_fields [OF 2(1)]
    have dm: "py_get d ''modal'' (PBool True) = PBool True" if "map_of d ''modal'' = None"
      using that by (simp add: py_get_def)
    have "py_get (window_params vp) ''modal'' (PBool True) = m"
      using assms(3) f(1,4) dm by (auto simp: window_params_modal)
    with 2(3) show ?case
      by (auto simp: params_window_queue request_field_params_request)
  qed
qed

theorem show_popup_forces_modal_false_witness:
  "\<exists>r. friday_ui_queue
          (snd (handle_user env0 st0
             (PDict [(''operation'', PStr ''show_popup''), (''tool_unlock_token'', PStr ''T0KEN''),
                     (''html'', PStr ''<p>hello</p>''), (''modal'', PBool True)])))
        = Some [r]
      \<and> req_operation r = ''show_popup'' \<and> request_field r ''modal'' = Some (PBool False)"
proof -
  let ?d = "[(''operation'', PStr ''show_popup''), (''tool_unlock_token'', PStr ''T0KEN''),
             (''html'', PStr ''<p>hello</p>''), (''modal'', PBool True)]"
  have h: "pop_handler_info (PDict ?d) = Inr ?d" "collapse_input ?d = PDict ?d"
    "py_get ?d ''operation'' PNone = PStr ''show_popup'' \<and> PBool False = PBool False \<or>
     py_get ?d ''operation'' PNone = PStr ''show_dialog'' \<and> map_of ?d ''modal'' = None
       \<and> PBool False = PBool True"
    by (simp_all add: pop_handler_info_def collapse_input_def py_get_def)
  have q: "friday_ui_queue st0 = Some []" by (simp add: st0_def)
  have ne: "\<not> isError (fst (handle_user env0 st0 (PDict ?d)))"
    by code_simp
  from show_popup_forces_modal_false [OF h, of env0 st0 "[]"] q ne
  show ?thesis by auto
qed

end
